theory Spec2Isabelle
  imports Complex_Main
begin

section \<open>The single-wheel rig co-simulation driver\<close>

text \<open>
  A shallow embedding of \<^verbatim>\<open>demo_VEH_Cosim_WheelRig.cpp\<close>: the function \<^verbatim>\<open>main\<close> that every
  MPI process runs, and \<^verbatim>\<open>GetProblemSpecs\<close>. One process is modelled: \<^verbatim>\<open>main\<close> becomes a
  function from the build configuration and the inputs of the process to the list of
  calls it issues (its trace) and the way it ends. The node classes, the MPI library, the
  command line parser and the filesystem are not part of the file; their calls are events
  of the trace, and what they answer is an input.
\<close>

subsection \<open>Values of type double\<close>

text \<open>
  A \<^verbatim>\<open>double\<close> is a finite real, an infinity or a NaN. The signs of zero and of infinity
  are not kept: no branch of the driver depends on them (a non-finite value is only ever
  divided into 1, or converted to \<^verbatim>\<open>int\<close>). Rounding to the nearest double is a parameter
  \<open>rnd\<close> of the model (it answers \<open>Infinity\<close> on overflow), so nothing proved below
  depends on how a quotient or a product is rounded.
\<close>

datatype double = Finite real | Infinity | NaN

fun fmul :: "(real \<Rightarrow> double) \<Rightarrow> double \<Rightarrow> double \<Rightarrow> double" where
  "fmul rnd (Finite a) (Finite b) = rnd (a * b)"
| "fmul rnd NaN y = NaN"
| "fmul rnd x NaN = NaN"
| "fmul rnd Infinity (Finite b) = (if b = 0 then NaN else Infinity)"
| "fmul rnd (Finite a) Infinity = (if a = 0 then NaN else Infinity)"
| "fmul rnd Infinity Infinity = Infinity"

fun fdiv :: "(real \<Rightarrow> double) \<Rightarrow> double \<Rightarrow> double \<Rightarrow> double" where
  "fdiv rnd (Finite a) (Finite b) =
     (if b = 0 then (if a = 0 then NaN else Infinity) else rnd (a / b))"
| "fdiv rnd NaN y = NaN"
| "fdiv rnd x NaN = NaN"
| "fdiv rnd Infinity (Finite b) = Infinity"
| "fdiv rnd (Finite a) Infinity = Finite 0"
| "fdiv rnd Infinity Infinity = NaN"

text \<open>\<^verbatim>\<open>std::ceil\<close>: exact on a finite value, the identity on the others.\<close>

fun fceil :: "double \<Rightarrow> double" where
  "fceil (Finite a) = Finite (of_int \<lceil>a\<rceil>)"
| "fceil Infinity = Infinity"
| "fceil NaN = NaN"

definition INT_MIN :: int where
  "INT_MIN = - 2147483648"

definition INT_MAX :: int where
  "INT_MAX = 2147483647"

text \<open>
  The conversion \<^verbatim>\<open>(int)x\<close> of a double truncates towards zero. Its behaviour is undefined
  when the truncated value is not representable in a 32-bit \<^verbatim>\<open>int\<close>, and for an infinity
  or a NaN: the model answers \<open>None\<close> there.
\<close>

fun int_cast :: "double \<Rightarrow> int option" where
  "int_cast (Finite a) =
     (let z = (if 0 \<le> a then \<lfloor>a\<rfloor> else \<lceil>a\<rceil>)
      in if INT_MIN \<le> z \<and> z \<le> INT_MAX then Some z else None)"
| "int_cast Infinity = None"
| "int_cast NaN = None"

text \<open>The conversion of an \<^verbatim>\<open>int\<close> to double is exact.\<close>

definition of_int32 :: "int \<Rightarrow> double" where
  "of_int32 k = Finite (of_int k)"

text \<open>
  The remainder \<^verbatim>\<open>a % b\<close> of C++ takes the sign of the dividend; \<open>b = 0\<close> is undefined
  behaviour and is tested by the caller.
\<close>

definition c_rem :: "int \<Rightarrow> int \<Rightarrow> int" where
  "c_rem a b = sgn a * (\<bar>a\<bar> mod \<bar>b\<bar>)"

subsection \<open>Data\<close>

text \<open>
  \<^verbatim>\<open>ChVehicleCosimRigNode::Type\<close> and \<^verbatim>\<open>ChVehicleCosimTerrainNode::Type\<close>, with the
  enumerators the driver names.
\<close>

datatype RigType = Rig_RIGID | Rig_FLEXIBLE

datatype TerrainType =
  RIGID | SCM | GRANULAR_OMP | GRANULAR_GPU | GRANULAR_SPH | GRANULAR_MPI

text \<open>
  The build: the three optional modules of the conditional compilation, and the two rank
  macros, which a header outside the file defines.
\<close>

record build =
  CHRONO_MULTICORE :: bool
  CHRONO_GPU :: bool
  CHRONO_FSI :: bool
  RIG_NODE_RANK :: int
  TERRAIN_NODE_RANK :: int

text \<open>What \<^verbatim>\<open>cli.GetAsType\<close> answers for each option after a successful parse.\<close>

record cli_values =
  cli_terrain_type :: int
  cli_sim_time :: double
  cli_step_size :: double
  cli_init_vel :: double
  cli_slip :: double
  cli_coh_pressure :: double
  cli_sys_mass :: double
  cli_quiet :: bool
  cli_no_render :: bool
  cli_no_output :: bool
  cli_use_checkpoint :: bool
  cli_threads_rig :: int
  cli_threads_terrain :: int
  cli_suffix :: string

text \<open>The reference parameters of \<^verbatim>\<open>GetProblemSpecs\<close>: the local variables of \<^verbatim>\<open>main\<close>.\<close>

record problem_specs =
  terrain_type :: TerrainType
  nthreads_rig :: int
  nthreads_terrain :: int
  step_size :: double
  sim_time :: double
  init_vel :: double
  slip :: double
  coh_pressure :: double
  sys_mass :: double
  use_checkpoint :: bool
  output_on :: bool
  render :: bool
  verbose :: bool
  suffix :: string

text \<open>
  The inputs of one process: what MPI reports, what the parser finds (\<open>None\<close> when
  \<^verbatim>\<open>cli.Parse\<close> fails), what the filesystem answers to \<^verbatim>\<open>create_directory\<close>, the output
  path and the names of the types (functions of the library, outside the file), the
  global \<^verbatim>\<open>tire_type\<close> (which the file initialises to \<^verbatim>\<open>RIGID\<close> and never assigns),
  and the rounding of doubles.
\<close>

record process_input =
  num_procs :: int
  rank :: int
  cli :: "cli_values option"
  create_directory :: "string \<Rightarrow> bool"
  GetChronoOutputPath :: string
  RigTypeAsString :: "RigType \<Rightarrow> string"
  TerrainTypeAsString :: "TerrainType \<Rightarrow> string"
  tire_type :: RigType
  rnd :: "real \<Rightarrow> double"

text \<open>
  The calls a process issues, in order. The verbose progress lines and the setters of
  material, patch and visualisation parameters are not traced; the error messages are
  (without their line breaks).
\<close>

datatype event =
    Cout string
  | CLI_Help
  | MPI_Abort int
  | MPI_Finalize
  | MPI_Barrier
  | CreateDirectory string
  | New_RigNode RigType
  | New_TerrainNode TerrainType
  | SetStepSize double
  | SetOutDir string string
  | SetInputFromCheckpoint string
  | SetSettlingTime double
  | EnableSettlingOutput bool double
  | Settle
  | WriteCheckpoint string
  | Initialize
  | Synchronize int double
  | Advance double
  | OutputData int
  | Delete_node

datatype undefined_behaviour = Null_Dereference | Int_Cast_Out_Of_Range | Modulo_By_Zero

datatype outcome = Returned int | Undefined undefined_behaviour

text \<open>What the pointer \<^verbatim>\<open>node\<close> holds once it is not null.\<close>

datatype node_object = RigNode RigType | TerrainNode TerrainType

subsection \<open>The globals and the initial values of the locals\<close>

definition output_fps :: double where
  "output_fps = Finite 100"

definition initial_specs :: "(real \<Rightarrow> double) \<Rightarrow> problem_specs" where
  "initial_specs r =
     \<lparr>terrain_type = RIGID, nthreads_rig = 1, nthreads_terrain = 1,
      step_size = r (1 / 10000), sim_time = Finite 10, init_vel = Finite (1 / 2),
      slip = Finite 0, coh_pressure = Finite 0, sys_mass = Finite 200,
      use_checkpoint = False, output_on = True, render = True, verbose = True,
      suffix = []\<rparr>"

subsection \<open>GetProblemSpecs\<close>

text \<open>
  The switch over the option \<^verbatim>\<open>terrain_type\<close> has the cases 0 to 5 and no default: any
  other value leaves the variable as \<^verbatim>\<open>main\<close> initialised it.
\<close>

definition terrain_type_of_cli :: "int \<Rightarrow> TerrainType \<Rightarrow> TerrainType" where
  "terrain_type_of_cli k old =
     (if k = 0 then RIGID
      else if k = 1 then SCM
      else if k = 2 then GRANULAR_OMP
      else if k = 3 then GRANULAR_GPU
      else if k = 4 then GRANULAR_SPH
      else if k = 5 then GRANULAR_MPI
      else old)"

definition GetProblemSpecs ::
  "cli_values option \<Rightarrow> int \<Rightarrow> problem_specs \<Rightarrow> event list \<times> problem_specs option" where
  "GetProblemSpecs parsed rk s =
     (case parsed of
        None \<Rightarrow> ((if rk = 0 then [CLI_Help] else []), None)
      | Some c \<Rightarrow>
          ([], Some
            \<lparr>terrain_type = terrain_type_of_cli (cli_terrain_type c) (terrain_type s),
             nthreads_rig = cli_threads_rig c,
             nthreads_terrain = cli_threads_terrain c,
             step_size = cli_step_size c,
             sim_time = cli_sim_time c,
             init_vel = cli_init_vel c,
             slip = cli_slip c,
             coh_pressure = cli_coh_pressure c,
             sys_mass = cli_sys_mass c,
             use_checkpoint = cli_use_checkpoint c,
             output_on = (\<not> cli_no_output c),
             render = (\<not> cli_no_render c),
             verbose = (\<not> cli_quiet c),
             suffix = cli_suffix c\<rparr>))"

subsection \<open>The stages of main\<close>

definition emit :: "event list \<Rightarrow> event list \<times> 'a \<Rightarrow> event list \<times> 'a" where
  "emit evs r = (evs @ fst r, snd r)"

text \<open>Lines 136 to 160: the checks that the module of the chosen terrain is compiled in.\<close>

definition module_missing :: "build \<Rightarrow> TerrainType \<Rightarrow> string option" where
  "module_missing b t =
     (if \<not> CHRONO_MULTICORE b \<and> (t = RIGID \<or> t = GRANULAR_OMP)
        then Some ''Chrono::Multicore is required for RIGID or GRANULAR_OMP terrain type!''
      else if \<not> CHRONO_GPU b \<and> t = GRANULAR_GPU
        then Some ''Chrono::Gpu is required for GRANULAR_GPU terrain type!''
      else if \<not> CHRONO_FSI b \<and> t = GRANULAR_SPH
        then Some ''Chrono::FSI is required for GRANULAR_SPH terrain type!''
      else None)"

text \<open>Lines 163 to 166: the two directory names.\<close>

definition out_dir_top :: "process_input \<Rightarrow> string" where
  "out_dir_top inp = GetChronoOutputPath inp @ ''RIG_COSIM''"

definition out_dir :: "process_input \<Rightarrow> problem_specs \<Rightarrow> string" where
  "out_dir inp s =
     out_dir_top inp @ ''/'' @ RigTypeAsString inp (tire_type inp) @ ''_'' @
     TerrainTypeAsString inp (terrain_type s)"

text \<open>Lines 182 and 183: the two step counts.\<close>

definition calc_sim_steps :: "(real \<Rightarrow> double) \<Rightarrow> problem_specs \<Rightarrow> int option" where
  "calc_sim_steps r s = int_cast (fceil (fdiv r (sim_time s) (step_size s)))"

definition calc_output_steps :: "(real \<Rightarrow> double) \<Rightarrow> problem_specs \<Rightarrow> int option" where
  "calc_output_steps r s =
     int_cast (fceil (fdiv r (Finite 1) (fmul r output_fps (step_size s))))"

text \<open>Lines 188 to 219: the rig node. Both enumerators of the tire type build a node.\<close>

definition create_rig_node ::
  "process_input \<Rightarrow> problem_specs \<Rightarrow> event list \<times> node_object option" where
  "create_rig_node inp s =
     ([New_RigNode (tire_type inp), SetStepSize (step_size s),
       SetOutDir (out_dir inp s) (suffix s)],
      Some (RigNode (tire_type inp)))"

text \<open>
  Lines 357 to 364 and 407 to 414, the same in the two granular cases: the terrain is
  read from the checkpoint, or settled and the checkpoint written.
\<close>

definition settle_or_load :: "(real \<Rightarrow> double) \<Rightarrow> problem_specs \<Rightarrow> event list" where
  "settle_or_load r s =
     (if use_checkpoint s then [SetInputFromCheckpoint ''checkpoint_settled.dat'']
      else [SetSettlingTime (r (4 / 10)), EnableSettlingOutput True output_fps, Settle,
            WriteCheckpoint ''checkpoint_settled.dat''])"

text \<open>
  Lines 221 to 448: the terrain node. The switch has one case for each of five
  enumerators, three of them compiled only with their module, and no default;
  \<open>node\<close> is the pointer before the switch.
\<close>

definition create_terrain_node ::
  "build \<Rightarrow> process_input \<Rightarrow> problem_specs \<Rightarrow> node_object option \<Rightarrow>
   event list \<times> node_object option" where
  "create_terrain_node b inp s node =
     (let common = [SetStepSize (step_size s), SetOutDir (out_dir inp s) (suffix s)]
      in case terrain_type s of
        RIGID \<Rightarrow>
          (if CHRONO_MULTICORE b
           then (New_TerrainNode RIGID # common, Some (TerrainNode RIGID))
           else ([], node))
      | SCM \<Rightarrow>
          (New_TerrainNode SCM # common @
             (if use_checkpoint s then [SetInputFromCheckpoint ''checkpoint_end.dat''] else []),
           Some (TerrainNode SCM))
      | GRANULAR_OMP \<Rightarrow>
          (if CHRONO_MULTICORE b
           then (New_TerrainNode GRANULAR_OMP # common @ settle_or_load (rnd inp) s,
                 Some (TerrainNode GRANULAR_OMP))
           else ([], node))
      | GRANULAR_GPU \<Rightarrow>
          (if CHRONO_GPU b
           then (New_TerrainNode GRANULAR_GPU # common @ settle_or_load (rnd inp) s,
                 Some (TerrainNode GRANULAR_GPU))
           else ([], node))
      | GRANULAR_SPH \<Rightarrow>
          (if CHRONO_FSI b
           then (New_TerrainNode GRANULAR_SPH # common, Some (TerrainNode GRANULAR_SPH))
           else ([], node))
      | GRANULAR_MPI \<Rightarrow> ([], node))"

text \<open>Lines 186 to 448: \<^verbatim>\<open>node\<close> starts null; the two rank tests follow one another.\<close>

definition create_node ::
  "build \<Rightarrow> process_input \<Rightarrow> problem_specs \<Rightarrow> event list \<times> node_object option" where
  "create_node b inp s =
     (let r1 = (if rank inp = RIG_NODE_RANK b then create_rig_node inp s else ([], None))
      in if rank inp = TERRAIN_NODE_RANK b
         then emit (fst r1) (create_terrain_node b inp s (snd r1))
         else r1)"

text \<open>
  Lines 463 to 480: the loop. \<open>step\<close> is the variable \<^verbatim>\<open>is\<close>. It stays below
  \<open>sim_steps\<close>, an \<^verbatim>\<open>int\<close>, and \<open>output_frame\<close> never exceeds it, so neither increment
  overflows. The remainder is only taken when \<^verbatim>\<open>output\<close> holds.
\<close>

function cosim_loop ::
  "(real \<Rightarrow> double) \<Rightarrow> problem_specs \<Rightarrow> int \<Rightarrow> int \<Rightarrow> int \<Rightarrow> int \<Rightarrow>
   event list \<times> undefined_behaviour option" where
  "cosim_loop r s sim_steps output_steps step output_frame =
     (if step < sim_steps then
        emit [MPI_Barrier,
              Synchronize step (fmul r (of_int32 step) (step_size s)),
              Advance (step_size s)]
          (if output_on s then
             (if output_steps = 0 then ([], Some Modulo_By_Zero)
              else if c_rem step output_steps = 0 then
                emit [OutputData output_frame]
                  (cosim_loop r s sim_steps output_steps (step + 1) (output_frame + 1))
              else cosim_loop r s sim_steps output_steps (step + 1) output_frame)
           else cosim_loop r s sim_steps output_steps (step + 1) output_frame)
      else ([], None))"
  by pat_completeness auto
termination
  by (relation "measure (\<lambda>(r, s, sim_steps, output_steps, step, output_frame).
        nat (sim_steps - step))") auto

declare cosim_loop.simps [simp del]

text \<open>Lines 450 to 488: from \<^verbatim>\<open>Initialize\<close> to the end, on a node that may be null.\<close>

definition run_node ::
  "process_input \<Rightarrow> problem_specs \<Rightarrow> int \<Rightarrow> int \<Rightarrow> node_object option \<Rightarrow>
   event list \<times> outcome" where
  "run_node inp s sim_steps output_steps node =
     (case node of
        None \<Rightarrow> ([], Undefined Null_Dereference)
      | Some n \<Rightarrow>
          emit [Initialize]
            (case cosim_loop (rnd inp) s sim_steps output_steps 0 0 of
               (evs, Some u) \<Rightarrow> (evs, Undefined u)
             | (evs, None) \<Rightarrow>
                 (evs @ [WriteCheckpoint ''checkpoint_end.dat'', Delete_node, MPI_Finalize],
                  Returned 0)))"

text \<open>Lines 181 to 488.\<close>

definition simulate :: "build \<Rightarrow> process_input \<Rightarrow> problem_specs \<Rightarrow> event list \<times> outcome" where
  "simulate b inp s =
     (case calc_sim_steps (rnd inp) s of
        None \<Rightarrow> ([], Undefined Int_Cast_Out_Of_Range)
      | Some sim_steps \<Rightarrow>
          (case calc_output_steps (rnd inp) s of
             None \<Rightarrow> ([], Undefined Int_Cast_Out_Of_Range)
           | Some output_steps \<Rightarrow>
               emit (fst (create_node b inp s))
                 (run_node inp s sim_steps output_steps (snd (create_node b inp s)))))"

text \<open>Lines 162 to 179: rank 0 creates the two directories; then the barrier.\<close>

definition prepare_output_directory ::
  "build \<Rightarrow> process_input \<Rightarrow> problem_specs \<Rightarrow> event list \<times> outcome" where
  "prepare_output_directory b inp s =
     (if rank inp = 0 then
        emit [CreateDirectory (out_dir_top inp)]
          (if \<not> create_directory inp (out_dir_top inp) then
             ([Cout (''Error creating directory '' @ out_dir_top inp), MPI_Abort 1],
              Returned 1)
           else
             emit [CreateDirectory (out_dir inp s)]
               (if \<not> create_directory inp (out_dir inp s) then
                  ([Cout (''Error creating directory '' @ out_dir inp s), MPI_Abort 1],
                   Returned 1)
                else emit [MPI_Barrier] (simulate b inp s)))
      else emit [MPI_Barrier] (simulate b inp s))"

text \<open>Lines 135 to 160.\<close>

definition check_modules ::
  "build \<Rightarrow> process_input \<Rightarrow> problem_specs \<Rightarrow> event list \<times> outcome" where
  "check_modules b inp s =
     (case module_missing b (terrain_type s) of
        Some msg \<Rightarrow> ((if rank inp = 0 then [Cout msg] else []) @ [MPI_Abort 1], Returned 1)
      | None \<Rightarrow> prepare_output_directory b inp s)"

text \<open>Lines 114 to 133.\<close>

definition parse_command_line :: "build \<Rightarrow> process_input \<Rightarrow> event list \<times> outcome" where
  "parse_command_line b inp =
     (case GetProblemSpecs (cli inp) (rank inp) (initial_specs (rnd inp)) of
        (evs, None) \<Rightarrow> (evs @ [MPI_Finalize], Returned 1)
      | (evs, Some s) \<Rightarrow> emit evs (check_modules b inp s))"

text \<open>
  Lines 86 to 112, and from there the whole of \<^verbatim>\<open>main\<close> (a release build: the block under
  \<^verbatim>\<open>_DEBUG\<close> is not compiled).
\<close>

definition main :: "build \<Rightarrow> process_input \<Rightarrow> event list \<times> outcome" where
  "main b inp =
     (if num_procs inp \<noteq> 2 then
        ((if rank inp = 0
          then [Cout ''Single wheel cosimulation code must be run on exactly 2 ranks!'']
          else []) @ [MPI_Abort 1],
         Returned 1)
      else parse_command_line b inp)"

subsection \<open>The trace of a run that passes the startup checks\<close>

text \<open>
  The conditions under which \<^verbatim>\<open>main\<close> gets past line 179 with the specification \<open>s\<close>:
  two processes, a command line that parses to \<open>s\<close>, the module of the terrain compiled
  in, and on rank 0 two directories that can be created.
\<close>

definition passes_startup :: "build \<Rightarrow> process_input \<Rightarrow> problem_specs \<Rightarrow> bool" where
  "passes_startup b inp s =
     (num_procs inp = 2 \<and>
      GetProblemSpecs (cli inp) (rank inp) (initial_specs (rnd inp)) = ([], Some s) \<and>
      module_missing b (terrain_type s) = None \<and>
      (if rank inp = 0
       then create_directory inp (out_dir_top inp) \<and> create_directory inp (out_dir inp s)
       else True))"

definition startup_events :: "process_input \<Rightarrow> problem_specs \<Rightarrow> event list" where
  "startup_events inp s =
     (if rank inp = 0
      then [CreateDirectory (out_dir_top inp), CreateDirectory (out_dir inp s)]
      else []) @ [MPI_Barrier]"

text \<open>
  Iteration \<open>n\<close> of the loop as the specification describes it: the barrier, the
  synchronisation at time \<open>n * step_size\<close>, the advance, and an output frame every
  \<open>output_steps\<close> iterations, the frames numbered from 0.
\<close>

definition iteration_events ::
  "(real \<Rightarrow> double) \<Rightarrow> problem_specs \<Rightarrow> int \<Rightarrow> int \<Rightarrow> event list" where
  "iteration_events r s output_steps n =
     [MPI_Barrier, Synchronize n (fmul r (of_int32 n) (step_size s)), Advance (step_size s)] @
     (if output_on s \<and> c_rem n output_steps = 0
      then [OutputData (n div \<bar>output_steps\<bar>)] else [])"

text \<open>The number of multiples of \<open>k\<close> among \<open>0, ..., i - 1\<close>: the frames written before iteration \<open>i\<close>.\<close>

definition frames_before :: "int \<Rightarrow> int \<Rightarrow> int" where
  "frames_before k i = (if i mod k = 0 then i div k else i div k + 1)"

definition final_events :: "event list" where
  "final_events = [WriteCheckpoint ''checkpoint_end.dat'', Delete_node, MPI_Finalize]"

subsection \<open>Reading a trace\<close>

fun is_node_event :: "event \<Rightarrow> bool" where
  "is_node_event (Cout m) = False"
| "is_node_event CLI_Help = False"
| "is_node_event (MPI_Abort k) = False"
| "is_node_event MPI_Finalize = False"
| "is_node_event MPI_Barrier = False"
| "is_node_event (CreateDirectory p) = False"
| "is_node_event e = True"

fun is_Synchronize :: "event \<Rightarrow> bool" where
  "is_Synchronize (Synchronize k t) = True"
| "is_Synchronize e = False"

fun is_Advance :: "event \<Rightarrow> bool" where
  "is_Advance (Advance dt) = True"
| "is_Advance e = False"

fun is_CreateDirectory :: "event \<Rightarrow> bool" where
  "is_CreateDirectory (CreateDirectory p) = True"
| "is_CreateDirectory e = False"

text \<open>The calls of the protocol from \<^verbatim>\<open>Initialize\<close> on.\<close>

fun is_step_call :: "event \<Rightarrow> bool" where
  "is_step_call Initialize = True"
| "is_step_call (Synchronize k t) = True"
| "is_step_call (Advance dt) = True"
| "is_step_call (OutputData f) = True"
| "is_step_call e = False"

text \<open>The calls that choose how a granular terrain starts: from a checkpoint or by settling.\<close>

fun is_settling_event :: "event \<Rightarrow> bool" where
  "is_settling_event (SetInputFromCheckpoint f) = True"
| "is_settling_event (SetSettlingTime t) = True"
| "is_settling_event (EnableSettlingOutput on fps) = True"
| "is_settling_event Settle = True"
| "is_settling_event (WriteCheckpoint f) = True"
| "is_settling_event e = False"

text \<open>The frame numbers of the calls of \<^verbatim>\<open>OutputData\<close>, in the order of the trace.\<close>

fun output_frames :: "event list \<Rightarrow> int list" where
  "output_frames [] = []"
| "output_frames (OutputData f # es) = f # output_frames es"
| "output_frames (e # es) = output_frames es"

subsection \<open>The order of the calls of a step\<close>

text \<open>
  A monitor that reads a trace and follows the protocol of the specification. Before
  \<^verbatim>\<open>Initialize\<close> no step call is allowed. After it, step \<open>n\<close> goes from \<open>Idle n\<close> through
  the barrier to \<open>At_barrier n\<close>, through \<^verbatim>\<open>Synchronize(n, time)\<close> to \<open>Synchronized n\<close>, and
  through \<^verbatim>\<open>Advance\<close> to \<open>Idle (n + 1)\<close>; output and shutdown calls are allowed between
  steps only. Any other call is refused (\<open>None\<close>).
\<close>

datatype phase = Startup | Idle int | At_barrier int | Synchronized int

fun monitor_step :: "phase \<Rightarrow> event \<Rightarrow> phase option" where
  "monitor_step Startup Initialize = Some (Idle 0)"
| "monitor_step Startup (Synchronize k t) = None"
| "monitor_step Startup (Advance dt) = None"
| "monitor_step Startup (OutputData f) = None"
| "monitor_step Startup e = Some Startup"
| "monitor_step (Idle n) MPI_Barrier = Some (At_barrier n)"
| "monitor_step (Idle n) (OutputData f) = Some (Idle n)"
| "monitor_step (Idle n) (WriteCheckpoint f) = Some (Idle n)"
| "monitor_step (Idle n) Delete_node = Some (Idle n)"
| "monitor_step (Idle n) MPI_Finalize = Some (Idle n)"
| "monitor_step (Idle n) e = None"
| "monitor_step (At_barrier n) (Synchronize k t) =
     (if k = n then Some (Synchronized n) else None)"
| "monitor_step (At_barrier n) e = None"
| "monitor_step (Synchronized n) (Advance dt) = Some (Idle (n + 1))"
| "monitor_step (Synchronized n) e = None"

fun monitor :: "phase \<Rightarrow> event list \<Rightarrow> phase option" where
  "monitor p [] = Some p"
| "monitor p (e # es) = (case monitor_step p e of None \<Rightarrow> None | Some q \<Rightarrow> monitor q es)"

subsection \<open>Concrete inputs\<close>

text \<open>
  A build with every module and the ranks 0 (rig) and 1 (terrain), and a run of three
  steps of one second on the SCM terrain, seen from the terrain rank. In the runs below
  the rounding is the identity: every product and quotient they take is a double, except
  the quotient \<open>1 / (output_fps * step_size)\<close>, whose rounding does not change its
  ceiling.
\<close>

definition demo_build :: build where
  "demo_build =
     \<lparr>CHRONO_MULTICORE = True, CHRONO_GPU = True, CHRONO_FSI = True,
      RIG_NODE_RANK = 0, TERRAIN_NODE_RANK = 1\<rparr>"

definition demo_cli :: cli_values where
  "demo_cli =
     \<lparr>cli_terrain_type = 1, cli_sim_time = Finite 3, cli_step_size = Finite 1,
      cli_init_vel = Finite (1 / 2), cli_slip = Finite 0, cli_coh_pressure = Finite 0,
      cli_sys_mass = Finite 200, cli_quiet = False, cli_no_render = False,
      cli_no_output = False, cli_use_checkpoint = False, cli_threads_rig = 1,
      cli_threads_terrain = 1, cli_suffix = []\<rparr>"

definition demo_specs :: problem_specs where
  "demo_specs =
     \<lparr>terrain_type = SCM, nthreads_rig = 1, nthreads_terrain = 1,
      step_size = Finite 1, sim_time = Finite 3, init_vel = Finite (1 / 2),
      slip = Finite 0, coh_pressure = Finite 0, sys_mass = Finite 200,
      use_checkpoint = False, output_on = True, render = True, verbose = True,
      suffix = []\<rparr>"

definition demo_RigTypeAsString :: "RigType \<Rightarrow> string" where
  "demo_RigTypeAsString t = (case t of Rig_RIGID \<Rightarrow> ''RIGID'' | Rig_FLEXIBLE \<Rightarrow> ''FLEXIBLE'')"

definition demo_TerrainTypeAsString :: "TerrainType \<Rightarrow> string" where
  "demo_TerrainTypeAsString t =
     (case t of RIGID \<Rightarrow> ''RIGID'' | SCM \<Rightarrow> ''SCM'' | GRANULAR_OMP \<Rightarrow> ''GRANULAR_OMP''
      | GRANULAR_GPU \<Rightarrow> ''GRANULAR_GPU'' | GRANULAR_SPH \<Rightarrow> ''GRANULAR_SPH''
      | GRANULAR_MPI \<Rightarrow> ''GRANULAR_MPI'')"

definition demo_input :: process_input where
  "demo_input =
     \<lparr>num_procs = 2, rank = 1, cli = Some demo_cli,
      create_directory = (\<lambda>p. True), GetChronoOutputPath = ''out/'',
      RigTypeAsString = demo_RigTypeAsString,
      TerrainTypeAsString = demo_TerrainTypeAsString,
      tire_type = Rig_RIGID, rnd = Finite\<rparr>"

text \<open>
  The same run asked to simulate \<open>2^32\<close> seconds in steps of one second: both values and
  their quotient are doubles, so the division is exact.
\<close>

definition long_run_input :: process_input where
  "long_run_input =
     demo_input\<lparr>cli := Some (demo_cli\<lparr>cli_sim_time := Finite 4294967296\<rparr>)\<rparr>"

text \<open>
  Ten steps of 1/256 s, a frame every third step: \<open>100 * (1/256) = 25/64\<close> and
  \<open>ceil(64/25) = 3\<close>.
\<close>

definition cadence_cli :: cli_values where
  "cadence_cli = demo_cli\<lparr>cli_sim_time := Finite (10 / 256), cli_step_size := Finite (1 / 256)\<rparr>"

definition cadence_specs :: problem_specs where
  "cadence_specs = demo_specs\<lparr>sim_time := Finite (10 / 256), step_size := Finite (1 / 256)\<rparr>"

definition cadence_input :: process_input where
  "cadence_input = demo_input\<lparr>cli := Some cadence_cli\<rparr>"

text \<open>The granular terrain on several cores, settled afresh or read from the checkpoint.\<close>

definition granular_cli :: "bool \<Rightarrow> cli_values" where
  "granular_cli ck = demo_cli\<lparr>cli_terrain_type := 2, cli_use_checkpoint := ck\<rparr>"

definition granular_specs :: "bool \<Rightarrow> problem_specs" where
  "granular_specs ck = demo_specs\<lparr>terrain_type := GRANULAR_OMP, use_checkpoint := ck\<rparr>"

definition granular_input :: "bool \<Rightarrow> process_input" where
  "granular_input ck = demo_input\<lparr>cli := Some (granular_cli ck)\<rparr>"

text \<open>The run of rank 0 with the suffix \<open>run1\<close> for the output directories.\<close>

definition suffix_input :: process_input where
  "suffix_input = demo_input\<lparr>rank := 0, cli := Some (demo_cli\<lparr>cli_suffix := ''run1''\<rparr>)\<rparr>"

definition suffix_specs :: problem_specs where
  "suffix_specs = demo_specs\<lparr>suffix := ''run1''\<rparr>"

text \<open>Rank 0 on a filesystem where only the directories named in \<open>ok\<close> can be created.\<close>

definition rank0_input :: "string list \<Rightarrow> process_input" where
  "rank0_input ok = demo_input\<lparr>rank := 0, create_directory := (\<lambda>p. p \<in> set ok)\<rparr>"

text \<open>The terrain rank with \<^verbatim>\<open>--terrain_type=5\<close>.\<close>

definition terrain_type_5_input :: process_input where
  "terrain_type_5_input = demo_input\<lparr>cli := Some (demo_cli\<lparr>cli_terrain_type := 5\<rparr>)\<rparr>"

subsection \<open>The node classes\<close>

datatype node_error = Node_Fault

text \<open>
  Modelled from the spec: \<^verbatim>\<open>WriteCheckpoint\<close> of a rig node, whose class is not among the
  sources. The specification (4.1) makes it a no-op that is accepted without error: the
  state of the rig is not checkpointed.
\<close>

definition RigNode_WriteCheckpoint :: "string \<Rightarrow> 'rig \<Rightarrow> node_error + 'rig" where
  "RigNode_WriteCheckpoint label rig_state = Inr rig_state"

subsection \<open>The mesh exchange\<close>

type_synonym vec3 = "real \<times> real \<times> real"

text \<open>The state of a vertex of the tire mesh: its position and its velocity.\<close>

type_synonym vertex_state = "vec3 \<times> vec3"

text \<open>
  What a terrain variant brings: the bounds of its patch, as a test on a position, and
  its physical model, which gives the force on vertex \<open>i\<close> of the mesh it received.
\<close>

record terrain_backend =
  in_patch :: "vec3 \<Rightarrow> bool"
  reaction :: "vertex_state list \<Rightarrow> nat \<Rightarrow> vec3"

text \<open>
  Modelled from the spec: \<^verbatim>\<open>Synchronize\<close> of a terrain node with a mesh-based exchange,
  whose classes are not among the sources. By section 4.2 it receives the vertex states
  of the rig, computes the reaction forces with the physical model of the variant, and
  returns them matched one-to-one against the indices the rig supplied; a vertex outside
  the bounds of the patch gets the force zero instead of a fault.
\<close>

definition TerrainNode_Synchronize ::
  "terrain_backend \<Rightarrow> vertex_state list \<Rightarrow> node_error + vec3 list" where
  "TerrainNode_Synchronize be vs =
     Inr (map (\<lambda>i. if in_patch be (fst (vs ! i)) then reaction be vs i else (0, 0, 0))
            [0..<length vs])"

text \<open>
  The two nodes of a run with a flexible tire: the mesh of the rig (vertex states and
  face connectivity), the topology the terrain received at \<^verbatim>\<open>Initialize\<close> (vertex count
  and faces), and the forces the last \<^verbatim>\<open>Synchronize\<close> returned to the rig.
\<close>

record flexible_cosim =
  rig_vertices :: "vertex_state list"
  rig_connectivity :: "(nat \<times> nat \<times> nat) list"
  terrain_topology :: "(nat \<times> (nat \<times> nat \<times> nat) list) option"
  returned_forces :: "vec3 list"

text \<open>
  Modelled from the spec: the lifecycle of the two node classes for a flexible tire
  (sections 3, 4.1 and 4.2). \<^verbatim>\<open>Initialize\<close> sends the topology of the mesh to the terrain
  once. \<^verbatim>\<open>Synchronize\<close> sends the vertex states and brings the forces back.
  \<^verbatim>\<open>Advance\<close> integrates the tire by \<open>dt\<close> under these forces, with the integrator of the
  rig as a parameter: it changes vertex positions and velocities only.
\<close>

definition cosim_Initialize :: "flexible_cosim \<Rightarrow> flexible_cosim" where
  "cosim_Initialize st =
     st\<lparr>terrain_topology := Some (length (rig_vertices st), rig_connectivity st)\<rparr>"

definition cosim_Synchronize ::
  "terrain_backend \<Rightarrow> flexible_cosim \<Rightarrow> node_error + flexible_cosim" where
  "cosim_Synchronize be st =
     (case TerrainNode_Synchronize be (rig_vertices st) of
        Inl e \<Rightarrow> Inl e
      | Inr fs \<Rightarrow> Inr (st\<lparr>returned_forces := fs\<rparr>))"

definition cosim_Advance ::
  "(real \<Rightarrow> vertex_state \<Rightarrow> vec3 \<Rightarrow> vertex_state) \<Rightarrow> real \<Rightarrow> flexible_cosim \<Rightarrow> flexible_cosim" where
  "cosim_Advance integrate dt st =
     st\<lparr>rig_vertices :=
          map (\<lambda>(v, f). integrate dt v f) (zip (rig_vertices st) (returned_forces st))\<rparr>"

text \<open>\<open>k\<close> steps of the loop: \<^verbatim>\<open>Synchronize\<close>, then \<^verbatim>\<open>Advance\<close>.\<close>

fun cosim_steps ::
  "terrain_backend \<Rightarrow> (real \<Rightarrow> vertex_state \<Rightarrow> vec3 \<Rightarrow> vertex_state) \<Rightarrow> real \<Rightarrow> nat \<Rightarrow>
   flexible_cosim \<Rightarrow> node_error + flexible_cosim" where
  "cosim_steps be integrate dt 0 st = Inr st"
| "cosim_steps be integrate dt (Suc k) st =
     (case cosim_Synchronize be st of
        Inl e \<Rightarrow> Inl e
      | Inr st' \<Rightarrow> cosim_steps be integrate dt k (cosim_Advance integrate dt st'))"

text \<open>A square patch, a constant vertical reaction and an explicit Euler step.\<close>

definition demo_backend :: terrain_backend where
  "demo_backend =
     \<lparr>in_patch = (\<lambda>(x, y, z). \<bar>x\<bar> \<le> 1 \<and> \<bar>y\<bar> \<le> 1),
      reaction = (\<lambda>vs i. (0, 0, 1))\<rparr>"

fun demo_integrate :: "real \<Rightarrow> vertex_state \<Rightarrow> vec3 \<Rightarrow> vertex_state" where
  "demo_integrate dt ((px, py, pz), (vx, vy, vz)) (fx, fy, fz) =
     ((px + dt * vx, py + dt * vy, pz + dt * vz), (vx + dt * fx, vy + dt * fy, vz + dt * fz))"

text \<open>A mesh of one triangle; its third vertex lies outside the patch.\<close>

definition demo_mesh :: flexible_cosim where
  "demo_mesh =
     \<lparr>rig_vertices = [((0, 0, 0), (1, 0, 0)), ((1, 0, 0), (1, 0, 0)), ((2, 0, 0), (1, 0, 0))],
      rig_connectivity = [(0, 1, 2)],
      terrain_topology = None,
      returned_forces = []\<rparr>"

section \<open>Auxiliary facts\<close>

subsection \<open>Arithmetic of the frame counter\<close>

lemma c_rem_nonneg: "0 \<le> a \<Longrightarrow> (c_rem a b = 0) = (a mod \<bar>b\<bar> = 0)"
  by (auto simp: c_rem_def sgn_if)

lemma succ_div_mod:
  fixes i k :: int
  assumes "0 < k"
  shows "(i + 1) div k = (if i mod k + 1 = k then i div k + 1 else i div k)"
    and "(i + 1) mod k = (if i mod k + 1 = k then 0 else i mod k + 1)"
proof -
  define q m where "q = i div k" and "m = i mod k"
  have i: "i = k * q + m"
    by (simp add: q_def m_def)
  have m: "0 \<le> m" "m < k"
    using assms by (simp_all add: m_def)
  have both: "(i + 1) div k = (if m + 1 = k then q + 1 else q) \<and>
              (i + 1) mod k = (if m + 1 = k then 0 else m + 1)"
  proof (cases "m + 1 = k")
    case True
    have "i + 1 = k * (q + 1) + 0"
      using i True by (simp add: algebra_simps)
    then have "(i + 1) div k = q + 1" "(i + 1) mod k = 0"
      using assms by simp_all
    with True show ?thesis by simp
  next
    case False
    with m have lt: "m + 1 < k" by linarith
    have eq: "i + 1 = k * q + (m + 1)"
      using i by simp
    have "(i + 1) div k = q"
      using eq lt m(1) by (intro int_div_pos_eq [where r = "m + 1"]) auto
    moreover have "(i + 1) mod k = m + 1"
      using eq lt m(1) by (intro int_mod_pos_eq [where q = q]) auto
    ultimately show ?thesis using False by simp
  qed
  show "(i + 1) div k = (if i mod k + 1 = k then i div k + 1 else i div k)"
    using both by (simp add: q_def m_def)
  show "(i + 1) mod k = (if i mod k + 1 = k then 0 else i mod k + 1)"
    using both by (simp add: q_def m_def)
qed

lemma frames_before_succ:
  assumes "0 < k"
  shows "frames_before k (i + 1) = (if i mod k = 0 then frames_before k i + 1 else frames_before k i)"
proof -
  have "i mod k + 1 \<noteq> 0"
    using assms pos_mod_sign [of k i] by linarith
  then show ?thesis
    using assms by (auto simp: frames_before_def succ_div_mod)
qed


subsection \<open>The loop in closed form\<close>

lemma emit_Nil [simp]: "emit [] r = r"
  by (simp add: emit_def)

lemma emit_pair [simp]: "emit evs (tr, x) = (evs @ tr, x)"
  by (simp add: emit_def)

lemma cosim_loop_closed:
  assumes "0 \<le> i"
    and "output_on s \<Longrightarrow> K \<noteq> 0 \<and> f = frames_before \<bar>K\<bar> i"
  shows "cosim_loop r s N K i f = (concat (map (iteration_events r s K) [i..N - 1]), None)"
  using assms
proof (induction r s N K i f rule: cosim_loop.induct)
  case (1 r s N K i f)
  show ?case
  proof (cases "i < N")
    case False
    then show ?thesis by (subst cosim_loop.simps) simp
  next
    case True
    then have range: "[i..N - 1] = i # [i + 1..N - 1]"
      by (simp add: upto_rec1)
    have next_ok: "0 \<le> i + 1" using "1.prems"(1) by simp
    show ?thesis
    proof (cases "output_on s")
      case False
      then have "cosim_loop r s N K (i + 1) f =
                (concat (map (iteration_events r s K) [i + 1..N - 1]), None)"
        using "1.IH"(3) [OF True False next_ok] by simp
      then show ?thesis
        using True False
        by (subst cosim_loop.simps) (simp add: range iteration_events_def [of r s K i])
    next
      case out: True
      with "1.prems" have K: "K \<noteq> 0" and f: "f = frames_before \<bar>K\<bar> i" by simp_all
      have pos: "0 < \<bar>K\<bar>" using K by simp
      show ?thesis
      proof (cases "c_rem i K = 0")
        case hit: True
        then have m: "i mod \<bar>K\<bar> = 0" using "1.prems"(1) by (simp add: c_rem_nonneg)
        have "f + 1 = frames_before \<bar>K\<bar> (i + 1)"
          using f m frames_before_succ [OF pos, of i] by simp
        then have "cosim_loop r s N K (i + 1) (f + 1) =
                (concat (map (iteration_events r s K) [i + 1..N - 1]), None)"
          using "1.IH"(1) [OF True out K hit next_ok] K by simp
        moreover have "f = i div \<bar>K\<bar>" using f m by (simp add: frames_before_def)
        ultimately show ?thesis
          using True out K hit
          by (subst cosim_loop.simps) (simp add: range iteration_events_def [of r s K i])
      next
        case miss: False
        then have m: "i mod \<bar>K\<bar> \<noteq> 0" using "1.prems"(1) by (simp add: c_rem_nonneg)
        have "f = frames_before \<bar>K\<bar> (i + 1)"
          using f m frames_before_succ [OF pos, of i] by simp
        then have "cosim_loop r s N K (i + 1) f =
                (concat (map (iteration_events r s K) [i + 1..N - 1]), None)"
          using "1.IH"(2) [OF True out K miss next_ok] K by simp
        then show ?thesis
          using True out K miss
          by (subst cosim_loop.simps) (simp add: range iteration_events_def [of r s K i])
      qed
    qed
  qed
qed

lemma cosim_loop_done:
  "N \<le> i \<Longrightarrow> cosim_loop r s N K i f = ([], None)"
  by (subst cosim_loop.simps) simp

lemma cosim_loop_from_0:
  assumes "output_on s \<and> 0 < N \<Longrightarrow> K \<noteq> 0"
  shows "cosim_loop r s N K 0 0 = (concat (map (iteration_events r s K) [0..N - 1]), None)"
proof (cases "0 < N")
  case True
  with assms show ?thesis
    by (intro cosim_loop_closed) (simp_all add: frames_before_def)
next
  case False
  then show ?thesis by (simp add: cosim_loop_done)
qed

subsection \<open>The trace of a run that reaches the loop\<close>

lemma main_passes_startup:
  assumes "passes_startup b inp s"
  shows "main b inp = emit (startup_events inp s) (simulate b inp s)"
  using assms
  by (simp add: passes_startup_def main_def parse_command_line_def check_modules_def
      prepare_output_directory_def startup_events_def emit_def)

lemma simulate_with_node:
  assumes "calc_sim_steps (rnd inp) s = Some N"
    and "calc_output_steps (rnd inp) s = Some K"
    and "snd (create_node b inp s) = Some n"
  shows "simulate b inp s =
           emit (fst (create_node b inp s) @ [Initialize])
             (case cosim_loop (rnd inp) s N K 0 0 of
                (evs, Some u) \<Rightarrow> (evs, Undefined u)
              | (evs, None) \<Rightarrow> (evs @ final_events, Returned 0))"
  unfolding final_events_def simulate_def run_node_def
  using assms by (simp add: emit_def)

lemma main_complete:
  assumes "passes_startup b inp s"
    and "calc_sim_steps (rnd inp) s = Some N"
    and "calc_output_steps (rnd inp) s = Some K"
    and "snd (create_node b inp s) = Some n"
    and "output_on s \<and> 0 < N \<Longrightarrow> K \<noteq> 0"
  shows "main b inp =
           (startup_events inp s @ fst (create_node b inp s) @ [Initialize] @
            concat (map (iteration_events (rnd inp) s K) [0..N - 1]) @ final_events,
            Returned 0)"
  using assms(5)
  by (simp add: main_passes_startup [OF assms(1)] simulate_with_node [OF assms(2,3,4)]
      cosim_loop_from_0)

lemma node_created:
  assumes "module_missing b (terrain_type s) = None"
    and "rank inp = RIG_NODE_RANK b \<or>
         (rank inp = TERRAIN_NODE_RANK b \<and> terrain_type s \<noteq> GRANULAR_MPI)"
  shows "\<exists>n. snd (create_node b inp s) = Some n"
  using assms
  by (cases "terrain_type s")
    (auto simp: create_node_def create_rig_node_def create_terrain_node_def module_missing_def
      emit_def Let_def split: if_splits)

lemma no_node_for_GRANULAR_MPI:
  assumes "terrain_type s = GRANULAR_MPI" "rank inp = TERRAIN_NODE_RANK b"
    "rank inp \<noteq> RIG_NODE_RANK b"
  shows "create_node b inp s = ([], None)"
  using assms by (simp add: create_node_def create_terrain_node_def emit_def)

subsection \<open>What the parts of a trace contain\<close>

lemma create_node_no_step_call:
  "e \<in> set (fst (create_node b inp s)) \<Longrightarrow> \<not> is_step_call e"
  by (cases "terrain_type s")
    (auto simp: create_node_def create_rig_node_def create_terrain_node_def settle_or_load_def
      emit_def Let_def split: if_splits)

lemma startup_events_no_step_call:
  "e \<in> set (startup_events inp s) \<Longrightarrow> \<not> is_step_call e"
  by (auto simp: startup_events_def split: if_splits)

lemma filter_no_step_call:
  assumes "\<And>e. e \<in> set xs \<Longrightarrow> \<not> is_step_call e"
  shows "filter is_Synchronize xs = []" "filter is_Advance xs = []" "output_frames xs = []"
proof -
  have "is_Synchronize e \<Longrightarrow> is_step_call e" for e by (cases e) simp_all
  with assms show "filter is_Synchronize xs = []" by (auto simp: filter_empty_conv)
  have "is_Advance e \<Longrightarrow> is_step_call e" for e by (cases e) simp_all
  with assms show "filter is_Advance xs = []" by (auto simp: filter_empty_conv)
  show "output_frames xs = []"
    using assms
  proof (induction xs)
    case Nil
    then show ?case by simp
  next
    case (Cons e es)
    then have "\<not> is_step_call e" and "output_frames es = []" by simp_all
    then show ?case by (cases e) simp_all
  qed
qed

lemma create_node_quiet:
  "filter is_Synchronize (fst (create_node b inp s)) = []"
  "filter is_Advance (fst (create_node b inp s)) = []"
  "output_frames (fst (create_node b inp s)) = []"
  by (rule filter_no_step_call, rule create_node_no_step_call, assumption)+

lemma startup_events_quiet:
  "filter is_Synchronize (startup_events inp s) = []"
  "filter is_Advance (startup_events inp s) = []"
  "output_frames (startup_events inp s) = []"
  by (rule filter_no_step_call, rule startup_events_no_step_call, assumption)+

lemma output_frames_append: "output_frames (xs @ ys) = output_frames xs @ output_frames ys"
  by (induction xs rule: output_frames.induct) simp_all

lemma Synchronize_of_iterations:
  "filter is_Synchronize (concat (map (iteration_events r s K) ns)) =
     map (\<lambda>n. Synchronize n (fmul r (of_int32 n) (step_size s))) ns"
  by (induction ns) (simp_all add: iteration_events_def)

lemma Advance_of_iterations:
  "filter is_Advance (concat (map (iteration_events r s K) ns)) =
     map (\<lambda>n. Advance (step_size s)) ns"
  by (induction ns) (simp_all add: iteration_events_def)

lemma main_complete_on_node:
  assumes "passes_startup b inp s"
    and "calc_sim_steps (rnd inp) s = Some N"
    and "calc_output_steps (rnd inp) s = Some K"
    and "rank inp = RIG_NODE_RANK b \<or>
         (rank inp = TERRAIN_NODE_RANK b \<and> terrain_type s \<noteq> GRANULAR_MPI)"
    and "output_on s \<and> 0 < N \<Longrightarrow> K \<noteq> 0"
  shows "main b inp =
           (startup_events inp s @ fst (create_node b inp s) @ [Initialize] @
            concat (map (iteration_events (rnd inp) s K) [0..N - 1]) @ final_events,
            Returned 0)"
proof -
  have "module_missing b (terrain_type s) = None"
    using assms(1) by (simp add: passes_startup_def)
  then obtain n where "snd (create_node b inp s) = Some n"
    using node_created assms(4) by blast
  with assms(1,2,3) show ?thesis
    using assms(5) by (rule main_complete)
qed

subsection \<open>The frames of a run\<close>

lemma frames_before_pred:
  assumes "0 < k"
  shows "frames_before k i = (i - 1) div k + 1"
proof -
  have m: "0 \<le> (i - 1) mod k" "(i - 1) mod k < k"
    using assms by simp_all
  have "i div k = (if (i - 1) mod k + 1 = k then (i - 1) div k + 1 else (i - 1) div k)"
    and "i mod k = (if (i - 1) mod k + 1 = k then 0 else (i - 1) mod k + 1)"
    using succ_div_mod [OF assms, of "i - 1"] by simp_all
  with m show ?thesis
    by (auto simp: frames_before_def)
qed

lemma output_frames_of_iterations:
  assumes "output_on s" and "K \<noteq> 0" and "0 \<le> i"
  shows "output_frames (concat (map (iteration_events r s K) [i..N - 1])) =
           [frames_before \<bar>K\<bar> i..(N - 1) div \<bar>K\<bar>]"
  using assms(3)
proof (induction "nat (N - i)" arbitrary: i)
  case 0
  then have "N - 1 \<le> i - 1" by simp
  then have "(N - 1) div \<bar>K\<bar> \<le> (i - 1) div \<bar>K\<bar>"
    using assms(2) by (intro zdiv_mono1) simp_all
  then have "(N - 1) div \<bar>K\<bar> < frames_before \<bar>K\<bar> i"
    using assms(2) by (simp add: frames_before_pred)
  moreover have "[i..N - 1] = []" using 0 by simp
  ultimately show ?case by simp
next
  case (Suc m)
  then have lt: "i < N" and m: "m = nat (N - (i + 1))" and nonneg: "0 \<le> i + 1"
    by simp_all
  have pos: "0 < \<bar>K\<bar>" using assms(2) by simp
  have range: "[i..N - 1] = i # [i + 1..N - 1]"
    using lt by (simp add: upto_rec1)
  have IH: "output_frames (concat (map (iteration_events r s K) [i + 1..N - 1])) =
              [frames_before \<bar>K\<bar> (i + 1)..(N - 1) div \<bar>K\<bar>]"
    using Suc.hyps(1) [OF m nonneg] .
  show ?case
  proof (cases "i mod \<bar>K\<bar> = 0")
    case True
    then have hit: "c_rem i K = 0" using Suc.prems by (simp add: c_rem_nonneg)
    have "i div \<bar>K\<bar> \<le> (N - 1) div \<bar>K\<bar>"
      using lt pos by (intro zdiv_mono1) simp_all
    then have "[i div \<bar>K\<bar>..(N - 1) div \<bar>K\<bar>] =
                 i div \<bar>K\<bar> # [i div \<bar>K\<bar> + 1..(N - 1) div \<bar>K\<bar>]"
      by (simp add: upto_rec1)
    moreover have "frames_before \<bar>K\<bar> i = i div \<bar>K\<bar>"
      using True by (simp add: frames_before_def)
    moreover have "frames_before \<bar>K\<bar> (i + 1) = i div \<bar>K\<bar> + 1"
      using True frames_before_succ [OF pos, of i] by (simp add: frames_before_def)
    ultimately show ?thesis
      using assms(1) hit IH
      by (simp add: range iteration_events_def [of r s K i] output_frames_append)
  next
    case False
    then have miss: "c_rem i K \<noteq> 0" using Suc.prems by (simp add: c_rem_nonneg)
    have "frames_before \<bar>K\<bar> (i + 1) = frames_before \<bar>K\<bar> i"
      using False frames_before_succ [OF pos, of i] by simp
    then show ?thesis
      using miss IH
      by (simp add: range iteration_events_def [of r s K i] output_frames_append)
  qed
qed

lemma count_list_iterations:
  "count_list (concat (map (iteration_events r s K) ns)) (WriteCheckpoint f) = 0"
  by (induction ns) (simp_all add: iteration_events_def)

lemma count_list_create_node:
  "count_list (fst (create_node b inp s)) (WriteCheckpoint ''checkpoint_end.dat'') = 0"
  by (cases "terrain_type s")
    (auto simp: create_node_def create_rig_node_def create_terrain_node_def settle_or_load_def
      emit_def Let_def split: if_splits)

lemma count_list_startup_events:
  "count_list (startup_events inp s) (WriteCheckpoint f) = 0"
  by (simp add: startup_events_def)

subsection \<open>The concrete runs\<close>

lemma demo_passes_startup: "passes_startup demo_build demo_input demo_specs"
  by (simp add: passes_startup_def demo_build_def demo_input_def demo_specs_def demo_cli_def
      GetProblemSpecs_def initial_specs_def terrain_type_of_cli_def module_missing_def)

lemma ceiling_hundredth: "\<lceil>1 / 100 :: real\<rceil> = 1"
  by (rule ceiling_unique) simp_all

lemma demo_steps:
  "fdiv (rnd demo_input) (sim_time demo_specs) (step_size demo_specs) = Finite 3"
  "calc_sim_steps (rnd demo_input) demo_specs = Some 3"
  "calc_output_steps (rnd demo_input) demo_specs = Some 1"
  by (simp_all add: calc_sim_steps_def calc_output_steps_def demo_input_def demo_specs_def
      output_fps_def INT_MIN_def INT_MAX_def ceiling_hundredth)

lemma upto_0_2: "[0..2] = [0, 1, 2::int]"
  by (simp add: upto_rec1)

lemma cadence_passes_startup: "passes_startup demo_build cadence_input cadence_specs"
  by (simp add: passes_startup_def demo_build_def cadence_input_def cadence_specs_def
      cadence_cli_def demo_input_def demo_specs_def demo_cli_def
      GetProblemSpecs_def initial_specs_def terrain_type_of_cli_def module_missing_def)

lemma ceiling_64_25: "\<lceil>64 / 25 :: real\<rceil> = 3"
  by (rule ceiling_unique) simp_all

lemma cadence_quotients:
  "fdiv (rnd cadence_input) (sim_time cadence_specs) (step_size cadence_specs) = Finite 10"
  "fdiv (rnd cadence_input) (Finite 1)
     (fmul (rnd cadence_input) output_fps (step_size cadence_specs)) = Finite (64 / 25)"
  by (simp_all add: cadence_input_def cadence_specs_def demo_input_def demo_specs_def
      output_fps_def)

lemma granular_passes_startup:
  "passes_startup demo_build (granular_input ck) (granular_specs ck)"
  by (simp add: passes_startup_def demo_build_def granular_input_def granular_specs_def
      granular_cli_def demo_input_def demo_specs_def demo_cli_def
      GetProblemSpecs_def initial_specs_def terrain_type_of_cli_def module_missing_def)

lemma granular_steps:
  "calc_sim_steps (rnd (granular_input ck)) (granular_specs ck) = Some 3"
  "calc_output_steps (rnd (granular_input ck)) (granular_specs ck) = Some 1"
  by (simp_all add: calc_sim_steps_def calc_output_steps_def granular_input_def
      granular_specs_def demo_input_def demo_specs_def output_fps_def INT_MIN_def INT_MAX_def
      ceiling_hundredth)

lemma upto_0_3: "[0..3] = [0, 1, 2, 3::int]"
  by (simp add: upto_rec1)

subsection \<open>A run without a node\<close>

lemma terrain_type_5_is_GRANULAR_MPI:
  "terrain_type_of_cli 5 old = GRANULAR_MPI" "module_missing b GRANULAR_MPI = None"
  by (simp_all add: terrain_type_of_cli_def module_missing_def)

lemma main_without_node:
  assumes "passes_startup b inp s"
    and "terrain_type s = GRANULAR_MPI"
    and "rank inp = TERRAIN_NODE_RANK b" and "rank inp \<noteq> RIG_NODE_RANK b"
    and "calc_sim_steps (rnd inp) s = Some N"
    and "calc_output_steps (rnd inp) s = Some K"
  shows "main b inp = (startup_events inp s, Undefined Null_Dereference)"
  using assms(5,6)
  by (simp add: main_passes_startup [OF assms(1)] simulate_def run_node_def
      no_node_for_GRANULAR_MPI [OF assms(2,3,4)])

subsection \<open>The monitor\<close>

lemma monitor_append:
  "monitor p (xs @ ys) = (case monitor p xs of None \<Rightarrow> None | Some q \<Rightarrow> monitor q ys)"
  by (induction xs arbitrary: p) (simp_all split: option.splits)

lemma monitor_step_Startup:
  "\<not> is_step_call e \<Longrightarrow> monitor_step Startup e = Some Startup"
  by (cases e) simp_all

lemma monitor_Startup_quiet:
  assumes "\<And>e. e \<in> set xs \<Longrightarrow> \<not> is_step_call e"
  shows "monitor Startup xs = Some Startup"
  using assms by (induction xs) (simp_all add: monitor_step_Startup)

lemma monitor_iteration:
  "monitor (Idle n) (iteration_events r s K n @ rest) = monitor (Idle (n + 1)) rest"
  by (simp add: iteration_events_def)

lemma monitor_iterations:
  "monitor (Idle i) (concat (map (iteration_events r s K) [i..N - 1]) @ rest) =
     monitor (Idle (max i N)) rest"
proof (induction "nat (N - i)" arbitrary: i)
  case 0
  then show ?case by (simp add: max_def)
next
  case (Suc m)
  then have lt: "i < N" and m: "m = nat (N - (i + 1))" by simp_all
  have range: "[i..N - 1] = i # [i + 1..N - 1]"
    using lt by (simp add: upto_rec1)
  show ?case
    using Suc.hyps(1) [OF m] lt by (simp add: range monitor_iteration max_def)
qed

lemma monitor_final_events: "monitor (Idle n) final_events = Some (Idle n)"
  by (simp add: final_events_def)

lemma monitor_cosim_loop:
  "\<exists>j. monitor (Idle i) (fst (cosim_loop r s N K i f) @ final_events) = Some (Idle j) \<and>
       monitor (Idle i) (fst (cosim_loop r s N K i f)) = Some (Idle j)"
proof (induction r s N K i f rule: cosim_loop.induct)
  case (1 r s N K i f)
  show ?case
  proof (cases "i < N")
    case False
    then show ?thesis by (simp add: cosim_loop_done monitor_final_events)
  next
    case True
    show ?thesis
    proof (cases "output_on s")
      case False
      with True "1.IH"(3) show ?thesis
        by (subst (1 2) cosim_loop.simps) (simp add: emit_def)
    next
      case out: True
      show ?thesis
      proof (cases "K = 0")
        case True
        with \<open>i < N\<close> out show ?thesis
          by (subst (1 2) cosim_loop.simps) (simp add: emit_def monitor_final_events)
      next
        case K: False
        show ?thesis
        proof (cases "c_rem i K = 0")
          case True
          with \<open>i < N\<close> out K "1.IH"(1) show ?thesis
            by (subst (1 2) cosim_loop.simps) (simp add: emit_def)
        next
          case False
          with \<open>i < N\<close> out K "1.IH"(2) show ?thesis
            by (subst (1 2) cosim_loop.simps) (simp add: emit_def)
        qed
      qed
    qed
  qed
qed

lemma monitor_run_node:
  "\<exists>p. monitor Startup (fst (run_node inp s N K node)) = Some p"
proof (cases node)
  case None
  then show ?thesis by (simp add: run_node_def)
next
  case (Some n)
  obtain evs u where loop: "cosim_loop (rnd inp) s N K 0 0 = (evs, u)"
    by (cases "cosim_loop (rnd inp) s N K 0 0") auto
  obtain j where "monitor (Idle 0) (evs @ final_events) = Some (Idle j)"
      "monitor (Idle 0) evs = Some (Idle j)"
    using monitor_cosim_loop [of 0 "rnd inp" s N K 0] loop by auto
  then show ?thesis
    using Some loop by (cases u) (simp_all add: run_node_def final_events_def)
qed

lemma monitor_simulate:
  "\<exists>p. monitor Startup (fst (simulate b inp s)) = Some p"
proof (cases "calc_sim_steps (rnd inp) s")
  case None
  then show ?thesis by (simp add: simulate_def)
next
  case N: (Some N)
  show ?thesis
  proof (cases "calc_output_steps (rnd inp) s")
    case None
    with N show ?thesis by (simp add: simulate_def)
  next
    case (Some K)
    have "monitor Startup (fst (create_node b inp s)) = Some Startup"
      by (rule monitor_Startup_quiet) (rule create_node_no_step_call)
    with N Some monitor_run_node [of inp s N K "snd (create_node b inp s)"] show ?thesis
      by (simp add: simulate_def emit_def monitor_append)
  qed
qed

lemma monitor_prepare_output_directory:
  "\<exists>p. monitor Startup (fst (prepare_output_directory b inp s)) = Some p"
  using monitor_simulate [of b inp s]
  by (simp add: prepare_output_directory_def emit_def)

lemma monitor_check_modules:
  "\<exists>p. monitor Startup (fst (check_modules b inp s)) = Some p"
  using monitor_prepare_output_directory [of b inp s]
  by (simp add: check_modules_def split: option.splits)

lemma monitor_parse_command_line:
  "\<exists>p. monitor Startup (fst (parse_command_line b inp)) = Some p"
proof (cases "cli inp")
  case None
  then show ?thesis by (simp add: parse_command_line_def GetProblemSpecs_def)
next
  case (Some c)
  then show ?thesis
    using monitor_check_modules
    by (simp add: parse_command_line_def GetProblemSpecs_def)
qed

lemma monitor_main:
  "\<exists>p. monitor Startup (fst (main b inp)) = Some p"
  using monitor_parse_command_line [of b inp] by (simp add: main_def)

subsection \<open>Directories\<close>

lemma cosim_loop_no_CreateDirectory:
  "filter is_CreateDirectory (fst (cosim_loop r s N K i f)) = []"
proof (induction r s N K i f rule: cosim_loop.induct)
  case (1 r s N K i f)
  show ?case
  proof (cases "i < N")
    case False
    then show ?thesis by (simp add: cosim_loop_done)
  next
    case True
    with "1.IH" show ?thesis
      by (subst cosim_loop.simps) (simp add: emit_def)
  qed
qed

lemma create_node_no_CreateDirectory:
  "filter is_CreateDirectory (fst (create_node b inp s)) = []"
  by (cases "terrain_type s")
    (auto simp: create_node_def create_rig_node_def create_terrain_node_def settle_or_load_def
      emit_def Let_def split: if_splits)

lemma simulate_no_CreateDirectory:
  "filter is_CreateDirectory (fst (simulate b inp s)) = []"
proof -
  have "filter is_CreateDirectory (fst (run_node inp s N K node)) = []" for N K node
  proof (cases node)
    case None
    then show ?thesis by (simp add: run_node_def)
  next
    case (Some n)
    obtain evs u where loop: "cosim_loop (rnd inp) s N K 0 0 = (evs, u)"
      by (cases "cosim_loop (rnd inp) s N K 0 0") auto
    then have "filter is_CreateDirectory evs = []"
      using cosim_loop_no_CreateDirectory [of "rnd inp" s N K 0 0] by simp
    with Some loop show ?thesis
      by (cases u) (simp_all add: run_node_def)
  qed
  then show ?thesis
    by (simp add: simulate_def emit_def create_node_no_CreateDirectory split: option.splits)
qed

lemma main_at_directories:
  assumes "num_procs inp = 2"
    and "GetProblemSpecs (cli inp) (rank inp) (initial_specs (rnd inp)) = ([], Some s)"
    and "module_missing b (terrain_type s) = None"
  shows "main b inp = prepare_output_directory b inp s"
  using assms by (simp add: main_def parse_command_line_def check_modules_def)

lemma suffix_run_startup:
  "num_procs suffix_input = 2"
  "GetProblemSpecs (cli suffix_input) (rank suffix_input) (initial_specs (rnd suffix_input)) =
     ([], Some suffix_specs)"
  "module_missing demo_build (terrain_type suffix_specs) = None"
  by (simp_all add: suffix_input_def suffix_specs_def demo_build_def demo_input_def
      demo_specs_def demo_cli_def GetProblemSpecs_def initial_specs_def
      terrain_type_of_cli_def module_missing_def)

lemma rank0_startup:
  "num_procs (rank0_input ok) = 2"
  "GetProblemSpecs (cli (rank0_input ok)) (rank (rank0_input ok))
     (initial_specs (rnd (rank0_input ok))) = ([], Some demo_specs)"
  "module_missing demo_build (terrain_type demo_specs) = None"
  by (simp_all add: rank0_input_def demo_build_def demo_input_def
      demo_specs_def demo_cli_def GetProblemSpecs_def initial_specs_def
      terrain_type_of_cli_def module_missing_def)

lemma rank0_passes_startup:
  "passes_startup demo_build (rank0_input [''out/RIG_COSIM'', ''out/RIG_COSIM/RIGID_SCM''])
     demo_specs"
  using rank0_startup(1,2) [of "[''out/RIG_COSIM'', ''out/RIG_COSIM/RIGID_SCM'']"]
    rank0_startup(3)
  by (simp add: passes_startup_def)
    (simp add: rank0_input_def demo_input_def demo_specs_def out_dir_def out_dir_top_def
      demo_RigTypeAsString_def demo_TerrainTypeAsString_def)

lemma rank0_steps:
  "calc_sim_steps (rnd (rank0_input ok)) demo_specs = Some 3"
  "calc_output_steps (rnd (rank0_input ok)) demo_specs = Some 1"
proof -
  have "rnd (rank0_input ok) = rnd demo_input"
    by (simp add: rank0_input_def)
  then show "calc_sim_steps (rnd (rank0_input ok)) demo_specs = Some 3"
    "calc_output_steps (rnd (rank0_input ok)) demo_specs = Some 1"
    using demo_steps(2,3) by simp_all
qed

lemma demo_startup:
  "num_procs demo_input = 2"
  "GetProblemSpecs (cli demo_input) (rank demo_input) (initial_specs (rnd demo_input)) =
     ([], Some demo_specs)"
  using demo_passes_startup by (simp_all add: passes_startup_def)

subsection \<open>The mesh exchange\<close>

lemma cosim_Synchronize_forces:
  "\<exists>st'. cosim_Synchronize be st = Inr st' \<and>
         rig_vertices st' = rig_vertices st \<and>
         rig_connectivity st' = rig_connectivity st \<and>
         terrain_topology st' = terrain_topology st \<and>
         length (returned_forces st') = length (rig_vertices st)"
  by (simp add: cosim_Synchronize_def TerrainNode_Synchronize_def)

lemma cosim_steps_invariant:
  "\<exists>st'. cosim_steps be integrate dt k st = Inr st' \<and>
         length (rig_vertices st') = length (rig_vertices st) \<and>
         rig_connectivity st' = rig_connectivity st \<and>
         terrain_topology st' = terrain_topology st"
proof (induction k arbitrary: st)
  case 0
  then show ?case by simp
next
  case (Suc k)
  obtain st1 where s: "cosim_Synchronize be st = Inr st1"
    and v: "rig_vertices st1 = rig_vertices st"
    and c: "rig_connectivity st1 = rig_connectivity st"
    and t: "terrain_topology st1 = terrain_topology st"
    and f: "length (returned_forces st1) = length (rig_vertices st)"
    using cosim_Synchronize_forces [of be st] by blast
  let ?st2 = "cosim_Advance integrate dt st1"
  have "length (rig_vertices ?st2) = length (rig_vertices st)"
    "rig_connectivity ?st2 = rig_connectivity st"
    "terrain_topology ?st2 = terrain_topology st"
    using v c t f by (simp_all add: cosim_Advance_def)
  with Suc.IH [of ?st2] s show ?case by auto
qed

lemma demo_mesh_two_steps:
  "cosim_steps demo_backend demo_integrate (1 / 10) (Suc (Suc 0)) (cosim_Initialize demo_mesh) =
     Inr \<lparr>rig_vertices =
            [((1 / 5, 0, 1 / 100), (1, 0, 1 / 5)), ((6 / 5, 0, 1 / 100), (1, 0, 1 / 10)),
             ((11 / 5, 0, 0), (1, 0, 0))],
          rig_connectivity = [(0, 1, 2)],
          terrain_topology = Some (3, [(0, 1, 2)]),
          returned_forces = [(0, 0, 1), (0, 0, 0), (0, 0, 0)]\<rparr>"
  by (simp add: cosim_Initialize_def cosim_Synchronize_def cosim_Advance_def
      TerrainNode_Synchronize_def demo_mesh_def demo_backend_def)

section \<open>Properties\<close>

text \<open>
  C1. The trace of every process (either rank, any input) is accepted by the monitor:
  after \<^verbatim>\<open>Initialize\<close>, each \<^verbatim>\<open>Synchronize(n, time)\<close> comes right after the barrier of
  step \<open>n\<close>, each \<^verbatim>\<open>Advance\<close> right after the \<^verbatim>\<open>Synchronize\<close> of its step, and no
  \<^verbatim>\<open>Advance\<close> is called for a step that has not been synchronised. In a run that passes
  the startup checks, has a node and does not divide by a zero \<open>output_steps\<close>, the
  monitor ends between steps with \<open>sim_steps\<close> steps done: every step from 0 to
  \<open>sim_steps - 1\<close> went through barrier, \<^verbatim>\<open>Synchronize\<close> and \<^verbatim>\<open>Advance\<close> in this order.
\<close>

theorem step_order_respected:
  "monitor Startup (fst (main b inp)) \<noteq> None \<and>
   (passes_startup b inp s \<and>
    calc_sim_steps (rnd inp) s = Some N \<and>
    calc_output_steps (rnd inp) s = Some K \<and>
    (rank inp = RIG_NODE_RANK b \<or>
     (rank inp = TERRAIN_NODE_RANK b \<and> terrain_type s \<noteq> GRANULAR_MPI)) \<and>
    (output_on s \<and> 0 < N \<longrightarrow> K \<noteq> 0) \<longrightarrow>
    monitor Startup (fst (main b inp)) = Some (Idle (max 0 N)))"
proof (intro conjI impI)
  show "monitor Startup (fst (main b inp)) \<noteq> None"
    using monitor_main [of b inp] by auto
next
  assume run: "passes_startup b inp s \<and>
    calc_sim_steps (rnd inp) s = Some N \<and>
    calc_output_steps (rnd inp) s = Some K \<and>
    (rank inp = RIG_NODE_RANK b \<or>
     (rank inp = TERRAIN_NODE_RANK b \<and> terrain_type s \<noteq> GRANULAR_MPI)) \<and>
    (output_on s \<and> 0 < N \<longrightarrow> K \<noteq> 0)"
  then have tr: "main b inp =
           (startup_events inp s @ fst (create_node b inp s) @ [Initialize] @
            concat (map (iteration_events (rnd inp) s K) [0..N - 1]) @ final_events,
            Returned 0)"
    by (intro main_complete_on_node) auto
  have "monitor Startup (startup_events inp s @ fst (create_node b inp s)) = Some Startup"
    using startup_events_no_step_call create_node_no_step_call
    by (intro monitor_Startup_quiet) auto
  then have "monitor Startup (fst (main b inp)) =
               monitor (Idle 0)
                 (concat (map (iteration_events (rnd inp) s K) [0..N - 1]) @ final_events)"
    using monitor_append [of Startup "startup_events inp s @ fst (create_node b inp s)"]
    by (simp add: tr)
  then show "monitor Startup (fst (main b inp)) = Some (Idle (max 0 N))"
    by (simp add: monitor_iterations monitor_final_events)
qed

theorem step_order_respected_witness:
  "monitor Startup (fst (main demo_build demo_input)) = Some (Idle 3) \<and>
   monitor Startup
     (fst (main demo_build (rank0_input [''out/RIG_COSIM'', ''out/RIG_COSIM/RIGID_SCM'']))) =
     Some (Idle 3)"
proof -
  have "rank demo_input = RIG_NODE_RANK demo_build \<or>
        (rank demo_input = TERRAIN_NODE_RANK demo_build \<and>
         terrain_type demo_specs \<noteq> GRANULAR_MPI)"
    by (simp add: demo_input_def demo_specs_def demo_build_def)
  then have terrain: "monitor Startup (fst (main demo_build demo_input)) = Some (Idle 3)"
    using step_order_respected [of demo_build demo_input demo_specs 3 1]
      demo_passes_startup demo_steps(2,3)
    by simp
  have "rank (rank0_input ok) = RIG_NODE_RANK demo_build" for ok
    by (simp add: rank0_input_def demo_input_def demo_build_def)
  then have "monitor Startup
     (fst (main demo_build (rank0_input [''out/RIG_COSIM'', ''out/RIG_COSIM/RIGID_SCM'']))) =
     Some (Idle 3)"
    using step_order_respected [of demo_build
        "rank0_input [''out/RIG_COSIM'', ''out/RIG_COSIM/RIGID_SCM'']" demo_specs 3 1]
      rank0_passes_startup rank0_steps
    by simp
  with terrain show ?thesis by simp
qed

text \<open>
  C2. When the number of processes is not 2, a process prints the diagnostic (on rank 0),
  calls \<^verbatim>\<open>MPI_Abort\<close> on the world communicator and returns 1, and nothing else: no node
  is built and no node method is called. The test itself, with exactly 2 processes,
  hands over to the parsing of the command line.
\<close>

theorem wrong_process_count_aborts:
  "(num_procs inp \<noteq> 2 \<longrightarrow>
      main b inp =
        ((if rank inp = 0
          then [Cout ''Single wheel cosimulation code must be run on exactly 2 ranks!'']
          else []) @ [MPI_Abort 1], Returned 1) \<and>
      filter is_node_event (fst (main b inp)) = []) \<and>
   (num_procs inp = 2 \<longrightarrow> main b inp = parse_command_line b inp)"
  by (simp add: main_def)

theorem wrong_process_count_aborts_witness:
  "main demo_build (demo_input\<lparr>num_procs := 3, rank := 0\<rparr>) =
     ([Cout ''Single wheel cosimulation code must be run on exactly 2 ranks!'', MPI_Abort 1],
      Returned 1) \<and>
   main demo_build demo_input = parse_command_line demo_build demo_input"
  using wrong_process_count_aborts [of "demo_input\<lparr>num_procs := 3, rank := 0\<rparr>" demo_build]
    wrong_process_count_aborts [of demo_input demo_build]
  by (simp add: demo_input_def)

text \<open>
  C3. On the terrain rank, for the granular terrain on several cores (OMP) and on the GPU,
  the calls issued before \<^verbatim>\<open>Initialize\<close> that concern settling and checkpoints are those
  of exactly one of two paths, chosen by \<^verbatim>\<open>use_checkpoint\<close>: either the terrain is read
  from \<^verbatim>\<open>checkpoint_settled.dat\<close> and nothing is settled, or the settling time (0.4) is
  set, the terrain is settled and \<^verbatim>\<open>checkpoint_settled.dat\<close> is written. The run is one
  that passes the startup checks and whose two step counts are representable.
\<close>

theorem granular_settles_or_loads:
  assumes "passes_startup b inp s"
    and "terrain_type s = GRANULAR_OMP \<or> terrain_type s = GRANULAR_GPU"
    and "rank inp = TERRAIN_NODE_RANK b"
    and "calc_sim_steps (rnd inp) s = Some N"
    and "calc_output_steps (rnd inp) s = Some K"
  shows "filter is_settling_event (takeWhile (\<lambda>e. e \<noteq> Initialize) (fst (main b inp))) =
           (if use_checkpoint s then [SetInputFromCheckpoint ''checkpoint_settled.dat'']
            else [SetSettlingTime (rnd inp (4 / 10)), EnableSettlingOutput True output_fps,
                  Settle, WriteCheckpoint ''checkpoint_settled.dat'']) \<and>
         Initialize \<in> set (fst (main b inp))"
proof -
  have mod: "module_missing b (terrain_type s) = None"
    using assms(1) by (simp add: passes_startup_def)
  then obtain n where n: "snd (create_node b inp s) = Some n"
    using node_created [of b s inp] assms(2,3) by auto
  obtain evs r where loop: "(case cosim_loop (rnd inp) s N K 0 0 of
                (evs, Some u) \<Rightarrow> (evs, Undefined u)
              | (evs, None) \<Rightarrow> (evs @ final_events, Returned 0)) = (evs, r)"
    by (cases "(case cosim_loop (rnd inp) s N K 0 0 of
                (evs, Some u) \<Rightarrow> (evs, Undefined u)
              | (evs, None) \<Rightarrow> (evs @ final_events, Returned 0))") auto
  have tr: "fst (main b inp) =
              (startup_events inp s @ fst (create_node b inp s)) @ Initialize # evs"
    by (simp add: main_passes_startup [OF assms(1)] simulate_with_node [OF assms(4,5) n] loop)
  have quiet: "e \<in> set (startup_events inp s @ fst (create_node b inp s)) \<Longrightarrow> e \<noteq> Initialize" for e
    using startup_events_no_step_call [of e inp s] create_node_no_step_call [of e b inp s]
    by auto
  have prefix: "takeWhile (\<lambda>e. e \<noteq> Initialize) (fst (main b inp)) =
                  startup_events inp s @ fst (create_node b inp s)"
    unfolding tr using quiet by (subst takeWhile_append2) simp_all
  have "filter is_settling_event (startup_events inp s) = []"
    by (simp add: startup_events_def)
  moreover have "filter is_settling_event (fst (create_node b inp s)) =
           (if use_checkpoint s then [SetInputFromCheckpoint ''checkpoint_settled.dat'']
            else [SetSettlingTime (rnd inp (4 / 10)), EnableSettlingOutput True output_fps,
                  Settle, WriteCheckpoint ''checkpoint_settled.dat''])"
    using assms(2,3) mod
    by (auto simp: create_node_def create_rig_node_def create_terrain_node_def
        settle_or_load_def module_missing_def emit_def Let_def split: if_splits)
  ultimately show ?thesis
    by (simp add: prefix) (simp add: tr)
qed

theorem granular_settles_or_loads_witness:
  "filter is_settling_event
     (takeWhile (\<lambda>e. e \<noteq> Initialize) (fst (main demo_build (granular_input False)))) =
     [SetSettlingTime (Finite (4 / 10)), EnableSettlingOutput True (Finite 100), Settle,
      WriteCheckpoint ''checkpoint_settled.dat''] \<and>
   filter is_settling_event
     (takeWhile (\<lambda>e. e \<noteq> Initialize) (fst (main demo_build (granular_input True)))) =
     [SetInputFromCheckpoint ''checkpoint_settled.dat'']"
proof -
  have kind: "terrain_type (granular_specs ck) = GRANULAR_OMP \<or>
              terrain_type (granular_specs ck) = GRANULAR_GPU" for ck
    by (simp add: granular_specs_def)
  have rk: "rank (granular_input ck) = TERRAIN_NODE_RANK demo_build" for ck
    by (simp add: granular_input_def demo_input_def demo_build_def)
  have ck: "\<not> use_checkpoint (granular_specs False)" "use_checkpoint (granular_specs True)"
    "rnd (granular_input False) = Finite"
    by (simp_all add: granular_specs_def granular_input_def demo_input_def)
  show ?thesis
    using granular_settles_or_loads [OF granular_passes_startup kind rk granular_steps, of False]
      granular_settles_or_loads [OF granular_passes_startup kind rk granular_steps, of True]
    by (simp add: ck output_fps_def)
qed

text \<open>
  C4, as amended. In a run that passes the startup checks, has a node and does not
  divide by a zero \<open>output_steps\<close>: when the quotient \<open>sim_time / step_size\<close>, computed in
  double arithmetic, is a finite \<open>q\<close> whose ceiling is representable as an \<^verbatim>\<open>int\<close>, the
  calls of \<^verbatim>\<open>Synchronize\<close> are those of the steps \<open>0, ..., \<lceil>q\<rceil> - 1\<close> in order, step \<open>n\<close>
  at the time \<open>n * step_size\<close> (the double product), and \<^verbatim>\<open>Advance\<close> is called as many
  times (no times when the ceiling is negative).
\<close>

theorem step_count_and_times:
  assumes "passes_startup b inp s"
    and "fdiv (rnd inp) (sim_time s) (step_size s) = Finite q"
    and "INT_MIN \<le> \<lceil>q\<rceil>" and "\<lceil>q\<rceil> \<le> INT_MAX"
    and "calc_output_steps (rnd inp) s = Some K"
    and "rank inp = RIG_NODE_RANK b \<or>
         (rank inp = TERRAIN_NODE_RANK b \<and> terrain_type s \<noteq> GRANULAR_MPI)"
    and "output_on s \<and> 0 < \<lceil>q\<rceil> \<Longrightarrow> K \<noteq> 0"
  shows "filter is_Synchronize (fst (main b inp)) =
           map (\<lambda>n. Synchronize n (fmul (rnd inp) (of_int32 n) (step_size s))) [0..\<lceil>q\<rceil> - 1] \<and>
         length (filter is_Synchronize (fst (main b inp))) = nat \<lceil>q\<rceil> \<and>
         length (filter is_Advance (fst (main b inp))) = nat \<lceil>q\<rceil>"
proof -
  have N: "calc_sim_steps (rnd inp) s = Some \<lceil>q\<rceil>"
    using assms(2,3,4) by (simp add: calc_sim_steps_def)
  have tr: "main b inp =
           (startup_events inp s @ fst (create_node b inp s) @ [Initialize] @
            concat (map (iteration_events (rnd inp) s K) [0..\<lceil>q\<rceil> - 1]) @ final_events,
            Returned 0)"
    using assms(1) N assms(5,6,7) by (rule main_complete_on_node)
  have sync: "filter is_Synchronize (fst (main b inp)) =
           map (\<lambda>n. Synchronize n (fmul (rnd inp) (of_int32 n) (step_size s))) [0..\<lceil>q\<rceil> - 1]"
    by (simp add: tr create_node_quiet startup_events_quiet Synchronize_of_iterations
        final_events_def)
  moreover have "length (filter is_Advance (fst (main b inp))) = nat \<lceil>q\<rceil>"
    by (simp add: tr create_node_quiet startup_events_quiet Advance_of_iterations
        final_events_def)
  ultimately show ?thesis by simp
qed

theorem step_count_and_times_witness:
  "filter is_Synchronize (fst (main demo_build demo_input)) =
     [Synchronize 0 (Finite 0), Synchronize 1 (Finite 1), Synchronize 2 (Finite 2)] \<and>
   length (filter is_Synchronize (fst (main demo_build demo_input))) = 3 \<and>
   length (filter is_Advance (fst (main demo_build demo_input))) = 3"
  using step_count_and_times [of demo_build demo_input demo_specs 3 1]
    demo_passes_startup demo_steps
  by (simp add: INT_MIN_def INT_MAX_def upto_0_2 of_int32_def)
    (simp add: demo_build_def demo_input_def demo_specs_def)

text \<open>
  C4 as stated fails without the bound on the ceiling: for \<open>sim_time = 2^32\<close> and
  \<open>step_size = 1\<close>, both positive, the conversion of \<open>ceil(sim_time / step_size)\<close> to
  \<^verbatim>\<open>int\<close> on line 182 is undefined, and the loop does not run \<open>2^32\<close> times.
\<close>

theorem step_count_counterexample:
  "main demo_build long_run_input = ([MPI_Barrier], Undefined Int_Cast_Out_Of_Range) \<and>
   int (length (filter is_Synchronize (fst (main demo_build long_run_input)))) \<noteq>
     \<lceil>4294967296 / 1 :: real\<rceil>"
proof -
  have "main demo_build long_run_input = ([MPI_Barrier], Undefined Int_Cast_Out_Of_Range)"
    by (simp add: main_def parse_command_line_def check_modules_def
        prepare_output_directory_def simulate_def calc_sim_steps_def
        long_run_input_def demo_build_def demo_input_def demo_cli_def
        GetProblemSpecs_def initial_specs_def terrain_type_of_cli_def module_missing_def
        INT_MIN_def INT_MAX_def)
  then show ?thesis by simp
qed

text \<open>
  C5. In a run that passes the startup checks, has a node (the rig node with either
  tire, or the terrain node of any of the five terrains the driver builds) and does not
  divide by a zero \<open>output_steps\<close>, whatever the output flag: \<^verbatim>\<open>main\<close> returns 0, it calls
  \<^verbatim>\<open>WriteCheckpoint("checkpoint_end.dat")\<close> exactly once, and that call comes after all
  the calls of \<^verbatim>\<open>Advance\<close> of the loop, followed only by the deletion of the node and
  \<^verbatim>\<open>MPI_Finalize\<close>. On a rig node the call is the no-op of the specification.
\<close>

theorem end_checkpoint_written_once:
  assumes "passes_startup b inp s"
    and "calc_sim_steps (rnd inp) s = Some N"
    and "calc_output_steps (rnd inp) s = Some K"
    and "rank inp = RIG_NODE_RANK b \<or>
         (rank inp = TERRAIN_NODE_RANK b \<and> terrain_type s \<noteq> GRANULAR_MPI)"
    and "output_on s \<and> 0 < N \<Longrightarrow> K \<noteq> 0"
  shows "snd (main b inp) = Returned 0 \<and>
         count_list (fst (main b inp)) (WriteCheckpoint ''checkpoint_end.dat'') = 1 \<and>
         (\<exists>pre. fst (main b inp) =
                  pre @ [WriteCheckpoint ''checkpoint_end.dat'', Delete_node, MPI_Finalize] \<and>
                length (filter is_Advance pre) = nat N) \<and>
         RigNode_WriteCheckpoint ''checkpoint_end.dat'' rig_state = Inr rig_state"
proof -
  let ?pre = "startup_events inp s @ fst (create_node b inp s) @ [Initialize] @
            concat (map (iteration_events (rnd inp) s K) [0..N - 1])"
  have "main b inp =
           (startup_events inp s @ fst (create_node b inp s) @ [Initialize] @
            concat (map (iteration_events (rnd inp) s K) [0..N - 1]) @ final_events,
            Returned 0)"
    using assms by (rule main_complete_on_node)
  then have tr: "main b inp = (?pre @ final_events, Returned 0)" by simp
  have "count_list (?pre @ final_events) (WriteCheckpoint ''checkpoint_end.dat'') = 1"
    by (simp add: count_list_startup_events count_list_create_node count_list_iterations
        final_events_def)
  moreover have "length (filter is_Advance ?pre) = nat N"
    by (simp add: create_node_quiet startup_events_quiet Advance_of_iterations)
  ultimately show ?thesis
    unfolding tr RigNode_WriteCheckpoint_def final_events_def by (simp only: fst_conv snd_conv) blast
qed

theorem end_checkpoint_written_once_witness:
  "snd (main demo_build demo_input) = Returned 0 \<and>
   count_list (fst (main demo_build demo_input)) (WriteCheckpoint ''checkpoint_end.dat'') = 1 \<and>
   (\<exists>pre. fst (main demo_build demo_input) =
            pre @ [WriteCheckpoint ''checkpoint_end.dat'', Delete_node, MPI_Finalize] \<and>
          length (filter is_Advance pre) = 3) \<and>
   RigNode_WriteCheckpoint ''checkpoint_end.dat'' () = Inr ()"
proof -
  have node: "rank demo_input = RIG_NODE_RANK demo_build \<or>
        (rank demo_input = TERRAIN_NODE_RANK demo_build \<and>
         terrain_type demo_specs \<noteq> GRANULAR_MPI)"
    by (simp add: demo_input_def demo_specs_def demo_build_def)
  have out: "output_on demo_specs \<and> (0::int) < 3 \<Longrightarrow> (1::int) \<noteq> 0" by simp
  show ?thesis
    using end_checkpoint_written_once [OF demo_passes_startup demo_steps(2,3) node out,
        of "()"]
    by simp
qed

text \<open>
  C6. With output enabled, in a run that passes the startup checks and has a node: let
  \<open>t\<close> be the quotient \<open>sim_time / step_size\<close> and \<open>q\<close> the quotient
  \<open>1 / (output_fps * step_size)\<close>, both computed in double arithmetic and finite, with
  ceilings representable as an \<^verbatim>\<open>int\<close>, that of \<open>q\<close> not zero. Then
  \<open>output_steps = \<lceil>q\<rceil>\<close>, the loop is the sequence of the iterations
  \<open>0, ..., \<lceil>t\<rceil> - 1\<close>, iteration \<open>n\<close> calls \<^verbatim>\<open>OutputData\<close> exactly when
  \<^verbatim>\<open>n % output_steps == 0\<close>, and the frames passed over the whole run are \<open>0, 1, 2, ...\<close>
  in order, up to \<open>(\<lceil>t\<rceil> - 1) div \<bar>\<lceil>q\<rceil>\<bar>\<close>.
\<close>

theorem output_cadence:
  assumes "passes_startup b inp s"
    and "fdiv (rnd inp) (sim_time s) (step_size s) = Finite t"
    and "INT_MIN \<le> \<lceil>t\<rceil>" and "\<lceil>t\<rceil> \<le> INT_MAX"
    and "fdiv (rnd inp) (Finite 1) (fmul (rnd inp) output_fps (step_size s)) = Finite q"
    and "INT_MIN \<le> \<lceil>q\<rceil>" and "\<lceil>q\<rceil> \<le> INT_MAX"
    and "rank inp = RIG_NODE_RANK b \<or>
         (rank inp = TERRAIN_NODE_RANK b \<and> terrain_type s \<noteq> GRANULAR_MPI)"
    and "output_on s" and "\<lceil>q\<rceil> \<noteq> 0"
  shows "fst (main b inp) =
           startup_events inp s @ fst (create_node b inp s) @ [Initialize] @
           concat (map (iteration_events (rnd inp) s \<lceil>q\<rceil>) [0..\<lceil>t\<rceil> - 1]) @ final_events \<and>
         (\<forall>n. output_frames (iteration_events (rnd inp) s \<lceil>q\<rceil> n) =
               (if c_rem n \<lceil>q\<rceil> = 0 then [n div \<bar>\<lceil>q\<rceil>\<bar>] else [])) \<and>
         output_frames (fst (main b inp)) = [0..(\<lceil>t\<rceil> - 1) div \<bar>\<lceil>q\<rceil>\<bar>]"
proof -
  have N: "calc_sim_steps (rnd inp) s = Some \<lceil>t\<rceil>"
    using assms(2,3,4) by (simp add: calc_sim_steps_def)
  have K: "calc_output_steps (rnd inp) s = Some \<lceil>q\<rceil>"
    using assms(5,6,7) by (simp add: calc_output_steps_def)
  have tr: "main b inp =
           (startup_events inp s @ fst (create_node b inp s) @ [Initialize] @
            concat (map (iteration_events (rnd inp) s \<lceil>q\<rceil>) [0..\<lceil>t\<rceil> - 1]) @ final_events,
            Returned 0)"
    using assms(1) N K assms(8) assms(10) by (rule main_complete_on_node)
  have each: "output_frames (iteration_events (rnd inp) s \<lceil>q\<rceil> n) =
               (if c_rem n \<lceil>q\<rceil> = 0 then [n div \<bar>\<lceil>q\<rceil>\<bar>] else [])" for n
    using assms(9) by (simp add: iteration_events_def)
  have "output_frames (concat (map (iteration_events (rnd inp) s \<lceil>q\<rceil>) [0..\<lceil>t\<rceil> - 1])) =
          [frames_before \<bar>\<lceil>q\<rceil>\<bar> 0..(\<lceil>t\<rceil> - 1) div \<bar>\<lceil>q\<rceil>\<bar>]"
    using assms(9,10) by (intro output_frames_of_iterations) simp_all
  then have "output_frames (fst (main b inp)) = [0..(\<lceil>t\<rceil> - 1) div \<bar>\<lceil>q\<rceil>\<bar>]"
    by (simp add: tr output_frames_append create_node_quiet startup_events_quiet
        final_events_def frames_before_def)
  with tr each show ?thesis by simp
qed

theorem output_cadence_witness:
  "output_frames (fst (main demo_build cadence_input)) = [0, 1, 2, 3] \<and>
   output_frames (iteration_events (rnd cadence_input) cadence_specs 3 6) = [2] \<and>
   output_frames (iteration_events (rnd cadence_input) cadence_specs 3 7) = []"
proof -
  have node: "rank cadence_input = RIG_NODE_RANK demo_build \<or>
        (rank cadence_input = TERRAIN_NODE_RANK demo_build \<and>
         terrain_type cadence_specs \<noteq> GRANULAR_MPI)"
    by (simp add: cadence_input_def cadence_specs_def demo_input_def demo_specs_def
        demo_build_def)
  have out: "output_on cadence_specs"
    by (simp add: cadence_specs_def demo_specs_def)
  have range: "INT_MIN \<le> \<lceil>10 :: real\<rceil>" "\<lceil>10 :: real\<rceil> \<le> INT_MAX"
    "INT_MIN \<le> \<lceil>64 / 25 :: real\<rceil>" "\<lceil>64 / 25 :: real\<rceil> \<le> INT_MAX"
    "\<lceil>64 / 25 :: real\<rceil> \<noteq> 0"
    by (simp_all add: INT_MIN_def INT_MAX_def ceiling_64_25)
  note run = output_cadence [OF cadence_passes_startup cadence_quotients(1) range(1,2)
      cadence_quotients(2) range(3,4) node out range(5)]
  have "output_frames (fst (main demo_build cadence_input)) =
          [0..(\<lceil>10 :: real\<rceil> - 1) div \<bar>\<lceil>64 / 25 :: real\<rceil>\<bar>]"
    using run by (rule conjunct2 [THEN conjunct2])
  moreover have
    "\<forall>n. output_frames (iteration_events (rnd cadence_input) cadence_specs \<lceil>64 / 25 :: real\<rceil> n) =
               (if c_rem n \<lceil>64 / 25 :: real\<rceil> = 0 then [n div \<bar>\<lceil>64 / 25 :: real\<rceil>\<bar>] else [])"
    using run by (rule conjunct2 [THEN conjunct1])
  ultimately show ?thesis
    by (simp add: ceiling_64_25 upto_0_3 c_rem_def)
qed

text \<open>
  C7, as amended. In a run of two processes whose command line parses and whose terrain
  module is compiled in: the two directories are \<^verbatim>\<open><outdir>RIG_COSIM\<close> and
  \<^verbatim>\<open><outdir>RIG_COSIM/<tireType>_<terrainType>\<close>, without the suffix (which is handed to
  the node with \<^verbatim>\<open>SetOutDir\<close>). Rank 0 creates them in this order before the barrier, and
  no process creates a directory later. If the first or the second cannot be created,
  rank 0 prints the error and calls \<^verbatim>\<open>MPI_Abort\<close> on the world communicator, which ends
  every process of the run, before any barrier. The other rank creates nothing and goes
  to the barrier.
\<close>

theorem output_directories_before_barrier:
  assumes "num_procs inp = 2"
    and "GetProblemSpecs (cli inp) (rank inp) (initial_specs (rnd inp)) = ([], Some s)"
    and "module_missing b (terrain_type s) = None"
  shows "out_dir_top inp = GetChronoOutputPath inp @ ''RIG_COSIM'' \<and>
         out_dir inp s =
           GetChronoOutputPath inp @ ''RIG_COSIM'' @ ''/'' @
           RigTypeAsString inp (tire_type inp) @ ''_'' @
           TerrainTypeAsString inp (terrain_type s) \<and>
         (rank inp = 0 \<and> \<not> create_directory inp (out_dir_top inp) \<longrightarrow>
            main b inp =
              ([CreateDirectory (out_dir_top inp),
                Cout (''Error creating directory '' @ out_dir_top inp), MPI_Abort 1],
               Returned 1)) \<and>
         (rank inp = 0 \<and> create_directory inp (out_dir_top inp) \<and>
          \<not> create_directory inp (out_dir inp s) \<longrightarrow>
            main b inp =
              ([CreateDirectory (out_dir_top inp), CreateDirectory (out_dir inp s),
                Cout (''Error creating directory '' @ out_dir inp s), MPI_Abort 1],
               Returned 1)) \<and>
         (rank inp = 0 \<and> create_directory inp (out_dir_top inp) \<and>
          create_directory inp (out_dir inp s) \<longrightarrow>
            fst (main b inp) =
              [CreateDirectory (out_dir_top inp), CreateDirectory (out_dir inp s), MPI_Barrier] @
              fst (simulate b inp s)) \<and>
         (rank inp \<noteq> 0 \<longrightarrow> fst (main b inp) = MPI_Barrier # fst (simulate b inp s)) \<and>
         filter is_CreateDirectory (fst (simulate b inp s)) = []"
  unfolding main_at_directories [OF assms]
  by (simp add: prepare_output_directory_def out_dir_def out_dir_top_def emit_def
      simulate_no_CreateDirectory)

theorem output_directories_before_barrier_witness:
  "main demo_build (rank0_input []) =
     ([CreateDirectory ''out/RIG_COSIM'',
       Cout ''Error creating directory out/RIG_COSIM'', MPI_Abort 1], Returned 1) \<and>
   main demo_build (rank0_input [''out/RIG_COSIM'']) =
     ([CreateDirectory ''out/RIG_COSIM'', CreateDirectory ''out/RIG_COSIM/RIGID_SCM'',
       Cout ''Error creating directory out/RIG_COSIM/RIGID_SCM'', MPI_Abort 1], Returned 1) \<and>
   fst (main demo_build (rank0_input [''out/RIG_COSIM'', ''out/RIG_COSIM/RIGID_SCM''])) =
     [CreateDirectory ''out/RIG_COSIM'', CreateDirectory ''out/RIG_COSIM/RIGID_SCM'',
      MPI_Barrier] @
     fst (simulate demo_build (rank0_input [''out/RIG_COSIM'', ''out/RIG_COSIM/RIGID_SCM''])
            demo_specs) \<and>
   fst (main demo_build demo_input) = MPI_Barrier # fst (simulate demo_build demo_input demo_specs)"
proof -
  have paths: "out_dir_top (rank0_input ok) = ''out/RIG_COSIM''"
    "out_dir (rank0_input ok) demo_specs = ''out/RIG_COSIM/RIGID_SCM''" for ok
    by (simp_all add: out_dir_def out_dir_top_def rank0_input_def demo_input_def
        demo_specs_def demo_RigTypeAsString_def demo_TerrainTypeAsString_def)
  have facts: "rank (rank0_input ok) = 0" "create_directory (rank0_input ok) p = (p \<in> set ok)"
    "rank demo_input \<noteq> 0" for ok p
    by (simp_all add: rank0_input_def demo_input_def)
  note both = conjunct2 [THEN conjunct2]
  have "main demo_build (rank0_input []) =
     ([CreateDirectory ''out/RIG_COSIM'',
       Cout ''Error creating directory out/RIG_COSIM'', MPI_Abort 1], Returned 1)"
    using output_directories_before_barrier
      [OF rank0_startup, of "[]", THEN both, THEN conjunct1]
    by (simp add: paths facts)
  moreover have "main demo_build (rank0_input [''out/RIG_COSIM'']) =
     ([CreateDirectory ''out/RIG_COSIM'', CreateDirectory ''out/RIG_COSIM/RIGID_SCM'',
       Cout ''Error creating directory out/RIG_COSIM/RIGID_SCM'', MPI_Abort 1], Returned 1)"
    using output_directories_before_barrier
      [OF rank0_startup, of "[''out/RIG_COSIM'']", THEN both, THEN conjunct2, THEN conjunct1]
    by (simp add: paths facts)
  moreover have
    "fst (main demo_build (rank0_input [''out/RIG_COSIM'', ''out/RIG_COSIM/RIGID_SCM''])) =
     [CreateDirectory ''out/RIG_COSIM'', CreateDirectory ''out/RIG_COSIM/RIGID_SCM'',
      MPI_Barrier] @
     fst (simulate demo_build (rank0_input [''out/RIG_COSIM'', ''out/RIG_COSIM/RIGID_SCM''])
            demo_specs)"
    using output_directories_before_barrier
      [OF rank0_startup, of "[''out/RIG_COSIM'', ''out/RIG_COSIM/RIGID_SCM'']",
        THEN both, THEN conjunct2, THEN conjunct2, THEN conjunct1]
    by (simp add: paths facts)
  moreover have
    "fst (main demo_build demo_input) = MPI_Barrier # fst (simulate demo_build demo_input demo_specs)"
    using output_directories_before_barrier
      [OF demo_startup rank0_startup(3),
        THEN both, THEN conjunct2, THEN conjunct2, THEN conjunct2, THEN conjunct1]
    by (simp add: facts)
  ultimately show ?thesis by (simp only: simp_thms)
qed

text \<open>
  C7 as stated fails on the suffix: with the suffix \<open>run1\<close> rank 0 creates
  \<^verbatim>\<open>out/RIG_COSIM\<close> and \<^verbatim>\<open>out/RIG_COSIM/RIGID_SCM\<close>, and no call of the run creates
  \<^verbatim>\<open>out/RIG_COSIM/RIGID_SCM_run1\<close>.
\<close>

theorem output_directory_suffix_counterexample:
  "suffix suffix_specs = ''run1'' \<and>
   filter is_CreateDirectory (fst (main demo_build suffix_input)) =
     [CreateDirectory ''out/RIG_COSIM'', CreateDirectory ''out/RIG_COSIM/RIGID_SCM''] \<and>
   CreateDirectory ''out/RIG_COSIM/RIGID_SCM_run1'' \<notin> set (fst (main demo_build suffix_input))"
proof -
  have dirs: "filter is_CreateDirectory (fst (main demo_build suffix_input)) =
     [CreateDirectory ''out/RIG_COSIM'', CreateDirectory ''out/RIG_COSIM/RIGID_SCM'']"
    unfolding main_at_directories [OF suffix_run_startup]
    by (simp add: prepare_output_directory_def emit_def simulate_no_CreateDirectory)
      (simp add: suffix_input_def suffix_specs_def demo_input_def demo_specs_def out_dir_def
        out_dir_top_def demo_RigTypeAsString_def demo_TerrainTypeAsString_def)
  have "CreateDirectory ''out/RIG_COSIM/RIGID_SCM_run1'' \<notin>
          set (filter is_CreateDirectory (fst (main demo_build suffix_input)))"
    unfolding dirs by simp
  then have "CreateDirectory ''out/RIG_COSIM/RIGID_SCM_run1'' \<notin>
          set (fst (main demo_build suffix_input))"
    by simp
  with dirs show ?thesis by (simp add: suffix_specs_def)
qed

text \<open>
  C8. For any terrain backend with a mesh-based exchange and any call of \<^verbatim>\<open>Synchronize\<close>,
  the call returns one force for each vertex and never a fault, and a vertex the rig
  supplied whose position lies outside the bounds of the patch receives exactly the
  force zero.
\<close>

theorem force_outside_patch_is_zero:
  "(\<exists>fs. TerrainNode_Synchronize be vs = Inr fs \<and> length fs = length vs) \<and>
   (i < length vs \<and> \<not> in_patch be (fst (vs ! i)) \<longrightarrow>
      (\<exists>fs. TerrainNode_Synchronize be vs = Inr fs \<and> fs ! i = (0, 0, 0)))"
  by (simp add: TerrainNode_Synchronize_def)

theorem force_outside_patch_is_zero_witness:
  "\<exists>fs. TerrainNode_Synchronize demo_backend (rig_vertices demo_mesh) = Inr fs \<and>
        fs ! 2 = (0, 0, 0)"
proof -
  have "2 < length (rig_vertices demo_mesh) \<and>
        \<not> in_patch demo_backend (fst (rig_vertices demo_mesh ! 2))"
    by (simp add: demo_mesh_def demo_backend_def)
  then show ?thesis
    using force_outside_patch_is_zero [of demo_backend "rig_vertices demo_mesh" 2]
    by blast
qed

text \<open>
  C9. For a flexible tire whose mesh of \<open>N\<close> vertices is exchanged at \<^verbatim>\<open>Initialize\<close>, after
  any number of steps (\<^verbatim>\<open>Synchronize\<close>, then \<^verbatim>\<open>Advance\<close>) no fault has occurred, the mesh of
  the rig still has \<open>N\<close> vertices and the same faces, the terrain still holds the topology
  it received, and the next \<^verbatim>\<open>Synchronize\<close> returns exactly \<open>N\<close> forces, the force at
  index \<open>i\<close> being that of vertex \<open>i\<close> of the mesh.
\<close>

theorem mesh_topology_stable:
  "\<exists>st'. cosim_steps be integrate dt k (cosim_Initialize st) = Inr st' \<and>
         length (rig_vertices st') = length (rig_vertices st) \<and>
         rig_connectivity st' = rig_connectivity st \<and>
         terrain_topology st' = Some (length (rig_vertices st), rig_connectivity st) \<and>
         (\<exists>fs. TerrainNode_Synchronize be (rig_vertices st') = Inr fs \<and>
               length fs = length (rig_vertices st) \<and>
               (\<forall>i < length (rig_vertices st).
                  fs ! i =
                    (if in_patch be (fst (rig_vertices st' ! i))
                     then reaction be (rig_vertices st') i else (0, 0, 0))))"
proof -
  obtain st' where run: "cosim_steps be integrate dt k (cosim_Initialize st) = Inr st'"
    and len: "length (rig_vertices st') = length (rig_vertices (cosim_Initialize st))"
    and con: "rig_connectivity st' = rig_connectivity (cosim_Initialize st)"
    and top: "terrain_topology st' = terrain_topology (cosim_Initialize st)"
    using cosim_steps_invariant [of be integrate dt k "cosim_Initialize st"] by blast
  have "length (rig_vertices st') = length (rig_vertices st)"
    "rig_connectivity st' = rig_connectivity st"
    "terrain_topology st' = Some (length (rig_vertices st), rig_connectivity st)"
    using len con top by (simp_all add: cosim_Initialize_def)
  then show ?thesis
    using run by (simp add: TerrainNode_Synchronize_def)
qed

theorem mesh_topology_stable_witness:
  "\<exists>st'. cosim_steps demo_backend demo_integrate (1 / 10) (Suc (Suc 0))
           (cosim_Initialize demo_mesh) = Inr st' \<and>
         length (rig_vertices st') = 3 \<and>
         rig_connectivity st' = [(0, 1, 2)] \<and>
         terrain_topology st' = Some (3, [(0, 1, 2)]) \<and>
         (\<exists>fs. TerrainNode_Synchronize demo_backend (rig_vertices st') = Inr fs \<and>
               length fs = 3 \<and> fs ! 0 = (0, 0, 1) \<and> fs ! 2 = (0, 0, 0))"
proof -
  have mesh: "length (rig_vertices demo_mesh) = 3" "rig_connectivity demo_mesh = [(0, 1, 2)]"
    by (simp_all add: demo_mesh_def)
  obtain st' fs where run: "cosim_steps demo_backend demo_integrate (1 / 10) (Suc (Suc 0))
           (cosim_Initialize demo_mesh) = Inr st'"
    and top: "length (rig_vertices st') = 3" "rig_connectivity st' = [(0, 1, 2)]"
      "terrain_topology st' = Some (3, [(0, 1, 2)])"
    and sync: "TerrainNode_Synchronize demo_backend (rig_vertices st') = Inr fs"
      "length fs = 3"
    and forces: "\<forall>i < 3. fs ! i =
                    (if in_patch demo_backend (fst (rig_vertices st' ! i))
                     then reaction demo_backend (rig_vertices st') i else (0, 0, 0))"
    using mesh_topology_stable [of demo_backend demo_integrate "1 / 10" "Suc (Suc 0)" demo_mesh]
    unfolding mesh by blast
  have st': "rig_vertices st' =
            [((1 / 5, 0, 1 / 100), (1, 0, 1 / 5)), ((6 / 5, 0, 1 / 100), (1, 0, 1 / 10)),
             ((11 / 5, 0, 0), (1, 0, 0))]"
    using run unfolding demo_mesh_two_steps by auto
  have "fs ! 0 = (0, 0, 1)" "fs ! 2 = (0, 0, 0)"
    using forces by (simp_all add: st' demo_backend_def)
  with run top sync show ?thesis by blast
qed

text \<open>
  C10 fails on the code. With \<^verbatim>\<open>--terrain_type=5\<close> the parser sets \<^verbatim>\<open>GRANULAR_MPI\<close>, none
  of the module checks of lines 136 to 160 concerns it, and the switch of lines 225 to
  446 has no case for it: on the terrain rank \<^verbatim>\<open>node\<close> is still null when line 455
  calls \<^verbatim>\<open>Initialize\<close> through it. No fatal configuration error is raised and no node is
  built.
\<close>

theorem terrain_type_5_null_node:
  "main demo_build terrain_type_5_input = ([MPI_Barrier], Undefined Null_Dereference)"
  by (simp add: main_def parse_command_line_def check_modules_def
      prepare_output_directory_def simulate_def calc_sim_steps_def calc_output_steps_def
      run_node_def create_node_def create_terrain_node_def emit_def
      terrain_type_5_input_def demo_build_def demo_input_def demo_cli_def
      GetProblemSpecs_def initial_specs_def terrain_type_of_cli_def module_missing_def
      output_fps_def INT_MIN_def INT_MAX_def ceiling_hundredth)

end
